theory Spec2Isabelle
  imports Main
begin

section \<open>Python values and errors\<close>

text \<open>
  The layers of \<^verbatim>\<open>src/model/network/layer.py\<close> are embedded as functions on records.
  Every \<^verbatim>\<open>raise\<close> of the source and every failing Python operation is a value of
  \<open>error\<close>; a function that can raise returns \<open>error + 'b\<close> with \<open>Inl\<close> the error.
  \<open>OpError\<close> stands for an error raised inside a TensorFlow operation.
\<close>

datatype error = ValueError | IndexError | ZeroDivisionError | TypeError | OpError

definition then_do :: "error + 'b \<Rightarrow> ('b \<Rightarrow> error + 'c) \<Rightarrow> error + 'c" where
  "then_do m f = (case m of Inl e \<Rightarrow> Inl e | Inr v \<Rightarrow> f v)"

text \<open>\<^verbatim>\<open>xs[i]\<close> for a constant index \<open>i \<ge> 0\<close>: IndexError out of range.\<close>

definition getitem :: "'b list \<Rightarrow> nat \<Rightarrow> error + 'b" where
  "getitem xs i = (if i < length xs then Inr (xs ! i) else Inl IndexError)"

text \<open>A list comprehension whose elements can raise: the first failure, in order, wins.\<close>

fun collect :: "(error + 'b) list \<Rightarrow> error + 'b list" where
  "collect [] = Inr []"
| "collect (m # ms) = then_do m (\<lambda>v. then_do (collect ms) (\<lambda>vs. Inr (v # vs)))"

text \<open>A layer argument that is a tensor or a Python list of them (\<^verbatim>\<open>isinstance(x, list)\<close>).\<close>

datatype 'b nest = One 'b | Many "'b list"

text \<open>\<^verbatim>\<open>kernel_size\<close> and \<^verbatim>\<open>strides\<close>: an int or a sequence of ints.\<close>

datatype size_arg = IntArg int | ListArg "int list"

type_synonym kwargs = "(string \<times> string) list"

section \<open>Tensors and the framework primitives\<close>

text \<open>
  A tensor with a fully known shape: its dimensions and its row-major buffer. The
  element type is a parameter; sums of elements are taken in a monoid.
\<close>

record 'a tensor =
  shape :: "nat list"
  buf :: "nat \<Rightarrow> 'a"

datatype ResizeMethod = BILINEAR | NEAREST_NEIGHBOR | BICUBIC | AREA
  | LANCZOS3 | LANCZOS5 | GAUSSIAN | MITCHELLCUBIC

record conv3d_transpose_args =
  ct_filters :: int
  ct_kernel_size :: size_arg
  ct_strides :: size_arg
  ct_padding :: string
  ct_output_padding :: "int list option"
  ct_kwargs :: kwargs

record conv3d_args =
  cv_filters :: int
  cv_kernel_size :: "size_arg option"
  cv_strides :: "size_arg option"
  cv_padding :: "string option"

text \<open>
  The primitives the file takes from outside are parameters: the constructor
  \<^verbatim>\<open>tf.keras.layers.Conv3DTranspose\<close>, the factories of \<^verbatim>\<open>layer_util\<close> (\<^verbatim>\<open>conv3d\<close>,
  \<^verbatim>\<open>batch_norm\<close>, \<^verbatim>\<open>act\<close>, \<^verbatim>\<open>max_pool3d\<close>) and the values that \<^verbatim>\<open>tf.image.resize\<close>
  interpolates. A layer is the function from its input to its output. Every layer
  object has weights of its own: an object is identified by the path of attribute names
  that leads to it (the first argument of a factory), so two layers made with the same
  arguments are different functions in general. An omitted keyword argument is \<open>None\<close>.
  The constructor of the transposed convolution validates its arguments: \<open>None\<close> is a
  rejection (a ValueError).
\<close>

record 'a framework =
  Conv3DTranspose :: "string \<Rightarrow> conv3d_transpose_args \<Rightarrow> ('a tensor \<Rightarrow> 'a tensor) option"
  lu_conv3d :: "string \<Rightarrow> conv3d_args \<Rightarrow> 'a tensor \<Rightarrow> 'a tensor"
  lu_batch_norm :: "string \<Rightarrow> 'a tensor \<Rightarrow> bool option \<Rightarrow> 'a tensor"
  lu_act :: "string \<Rightarrow> 'a tensor \<Rightarrow> 'a tensor"
  lu_max_pool3d :: "int list \<Rightarrow> int list \<Rightarrow> 'a tensor \<Rightarrow> 'a tensor"
  resize_values :: "ResizeMethod \<Rightarrow> nat \<Rightarrow> nat \<Rightarrow> 'a tensor \<Rightarrow> nat \<Rightarrow> 'a"

text \<open>
  The constructor raises ValueError when an output padding is negative or not smaller
  than the stride of its axis, and whenever it rejects its arguments otherwise.
\<close>

fun bad_output_padding :: "size_arg \<Rightarrow> int list \<Rightarrow> bool" where
  "bad_output_padding (IntArg s) ps = list_ex (\<lambda>p. p < 0 \<or> s \<le> p) ps"
| "bad_output_padding (ListArg st) ps = list_ex (\<lambda>(s, p). p < 0 \<or> s \<le> p) (zip st ps)"

definition Conv3DTranspose_init ::
  "'a framework \<Rightarrow> string \<Rightarrow> conv3d_transpose_args \<Rightarrow> error + ('a tensor \<Rightarrow> 'a tensor)" where
  "Conv3DTranspose_init fw name args =
     (if (case ct_output_padding args of
            None \<Rightarrow> False
          | Some ps \<Rightarrow> bad_output_padding (ct_strides args) ps)
      then Inl ValueError
      else (case Conv3DTranspose fw name args of
              None \<Rightarrow> Inl ValueError
            | Some layer \<Rightarrow> Inr layer))"

text \<open>\<^verbatim>\<open>tf.reshape\<close>: the buffer is kept, the number of elements must agree.\<close>

definition tf_reshape :: "'a tensor \<Rightarrow> nat list \<Rightarrow> error + 'a tensor" where
  "tf_reshape t new_shape =
     (if prod_list new_shape = prod_list (shape t) then Inr (t\<lparr>shape := new_shape\<rparr>)
      else Inl OpError)"

text \<open>
  \<^verbatim>\<open>tf.image.resize(images, size=[h, w], method)\<close> on a batch of images
  \<open>[n, height, width, channels]\<close>: the result has shape \<open>[n, h, w, channels]\<close>. A single
  image \<open>[height, width, channels]\<close> gives \<open>[h, w, channels]\<close>; no other rank is taken.
  The operation fails on a target size that is not positive, on an image without
  channels and on an image of height or width zero.
\<close>

definition tf_image_resize ::
  "'a framework \<Rightarrow> 'a tensor \<Rightarrow> nat \<Rightarrow> nat \<Rightarrow> ResizeMethod \<Rightarrow> error + 'a tensor" where
  "tf_image_resize fw images h w method =
     (if length (shape images) = 4
      then (if 0 < h \<and> 0 < w \<and> 0 < shape images ! 1 \<and> 0 < shape images ! 2
               \<and> 0 < shape images ! 3
            then Inr \<lparr>shape = [shape images ! 0, h, w, shape images ! 3],
                      buf = resize_values fw method h w images\<rparr>
            else Inl OpError)
      else if length (shape images) = 3
      then (if 0 < h \<and> 0 < w \<and> 0 < shape images ! 0 \<and> 0 < shape images ! 1
               \<and> 0 < shape images ! 2
            then Inr \<lparr>shape = [h, w, shape images ! 2],
                      buf = resize_values fw method h w images\<rparr>
            else Inl OpError)
      else Inl OpError)"

text \<open>
  The \<^verbatim>\<open>+\<close> of two tensors broadcasts: the shapes are aligned at their last axes, two
  dimensions must be equal or one of them 1, and the operation fails otherwise. The
  lists below are shapes read from the last axis.
\<close>

fun broadcast_dims :: "nat list \<Rightarrow> nat list \<Rightarrow> nat list option" where
  "broadcast_dims [] ys = Some ys"
| "broadcast_dims (x # xs) [] = Some (x # xs)"
| "broadcast_dims (x # xs) (y # ys) =
     (if x = y \<or> y = 1 then map_option ((#) x) (broadcast_dims xs ys)
      else if x = 1 then map_option ((#) y) (broadcast_dims xs ys)
      else None)"

text \<open>The place in an operand's buffer of the element that is broadcast to place \<open>j\<close>.\<close>

fun broadcast_source :: "nat list \<Rightarrow> nat list \<Rightarrow> nat \<Rightarrow> nat" where
  "broadcast_source (r # rs) (a # as) j =
     (if a = 1 then 0 else j mod r) + a * broadcast_source rs as (j div r)"
| "broadcast_source rs as j = 0"

definition tf_add :: "('a::monoid_add) tensor \<Rightarrow> 'a tensor \<Rightarrow> error + 'a tensor" where
  "tf_add a b =
     (case broadcast_dims (rev (shape a)) (rev (shape b)) of
        None \<Rightarrow> Inl OpError
      | Some r \<Rightarrow>
          Inr \<lparr>shape = rev r,
               buf = (\<lambda>j. buf a (broadcast_source r (rev (shape a)) j)
                         + buf b (broadcast_source r (rev (shape b)) j))\<rparr>)"

text \<open>
  \<^verbatim>\<open>tf.split(value, num_or_size_splits=num, axis)\<close> with an integer \<open>num\<close>: \<open>num\<close>
  tensors, the \<open>k\<close>-th holding the \<open>k\<close>-th contiguous block of the axis.
\<close>

definition split_piece :: "'a tensor \<Rightarrow> nat \<Rightarrow> nat \<Rightarrow> nat \<Rightarrow> 'a tensor" where
  "split_piece t num axis k =
     (let n = shape t ! axis; g = n div num; inner = prod_list (drop (Suc axis) (shape t))
      in \<lparr>shape = (shape t)[axis := g],
          buf = (\<lambda>j. buf t (((j div (g * inner)) * n + k * g + (j div inner) mod g) * inner
                              + j mod inner))\<rparr>)"

definition tf_split :: "'a tensor \<Rightarrow> nat \<Rightarrow> nat \<Rightarrow> error + 'a tensor list" where
  "tf_split t num axis =
     (if axis < length (shape t) \<and> 0 < num \<and> (shape t ! axis) mod num = 0
      then Inr (map (split_piece t num axis) [0..<num])
      else Inl OpError)"

text \<open>\<^verbatim>\<open>tf.stack(values, axis)\<close>: tensors of one shape, packed along a new axis.\<close>

definition tf_stack :: "'a tensor list \<Rightarrow> nat \<Rightarrow> error + 'a tensor" where
  "tf_stack ts axis =
     (if ts \<noteq> [] \<and> list_all (\<lambda>t. shape t = shape (hd ts)) ts \<and> axis \<le> length (shape (hd ts))
      then (let s = shape (hd ts); inner = prod_list (drop axis s); m = length ts
            in Inr \<lparr>shape = take axis s @ [m] @ drop axis s,
                    buf = (\<lambda>j. buf (ts ! ((j div inner) mod m))
                                  ((j div (m * inner)) * inner + j mod inner))\<rparr>)
      else Inl OpError)"

text \<open>\<^verbatim>\<open>tf.reduce_sum(t, axis)\<close>: the axis is summed away.\<close>

definition tf_reduce_sum :: "('a::monoid_add) tensor \<Rightarrow> nat \<Rightarrow> error + 'a tensor" where
  "tf_reduce_sum t axis =
     (if axis < length (shape t)
      then (let s = shape t; n = s ! axis; inner = prod_list (drop (Suc axis) s)
            in Inr \<lparr>shape = take axis s @ drop (Suc axis) s,
                    buf = (\<lambda>j. sum_list (map (\<lambda>k. buf t (((j div inner) * n + k) * inner
                                                          + j mod inner)) [0..<n]))\<rparr>)
      else Inl OpError)"

section \<open>Deconv3D\<close>

record 'a Deconv3D =
  d_name :: string
  d_filters :: int
  d_output_shape :: "nat list option"
  d_kernel_size :: size_arg
  d_strides :: size_arg
  d_padding :: string
  d_kwargs :: kwargs
  d_output_padding :: "int list option"
  d_Conv3DTranspose :: "('a tensor \<Rightarrow> 'a tensor) option"
  d_built :: bool

definition Deconv3D_init ::
  "string \<Rightarrow> int \<Rightarrow> nat list option \<Rightarrow> size_arg \<Rightarrow> size_arg \<Rightarrow> string \<Rightarrow> kwargs
     \<Rightarrow> 'a Deconv3D" where
  "Deconv3D_init name filters output_shape kernel_size strides padding kw =
     \<lparr>d_name = name, d_filters = filters, d_output_shape = output_shape,
      d_kernel_size = kernel_size, d_strides = strides, d_padding = padding, d_kwargs = kw,
      d_output_padding = None, d_Conv3DTranspose = None, d_built = False\<rparr>"

text \<open>\<^verbatim>\<open>if isinstance(v, int): v = [v] * 3\<close>\<close>

fun triple :: "size_arg \<Rightarrow> size_arg" where
  "triple (IntArg n) = ListArg (replicate 3 n)"
| "triple (ListArg xs) = ListArg xs"

text \<open>\<^verbatim>\<open>v[i]\<close> on such an argument; an int is not subscriptable.\<close>

fun size_arg_item :: "size_arg \<Rightarrow> nat \<Rightarrow> error + int" where
  "size_arg_item (IntArg n) i = Inl TypeError"
| "size_arg_item (ListArg xs) i = getitem xs i"

text \<open>One element of the comprehension in \<^verbatim>\<open>build\<close>, over Python's integers.\<close>

definition output_padding_at ::
  "nat list \<Rightarrow> nat list \<Rightarrow> size_arg \<Rightarrow> size_arg \<Rightarrow> nat \<Rightarrow> error + int" where
  "output_padding_at output_shape input_shape strides kernel_size i =
     then_do (getitem output_shape i) (\<lambda>out.
     then_do (getitem input_shape (1 + i)) (\<lambda>inp.
     then_do (size_arg_item strides i) (\<lambda>st.
     then_do (size_arg_item kernel_size i) (\<lambda>ks.
       Inr (int out - ((int inp - 1) * st + ks - 2 * (ks div 2)))))))"

definition Deconv3D_build ::
  "'a framework \<Rightarrow> 'a Deconv3D \<Rightarrow> nat list \<Rightarrow> error + 'a Deconv3D" where
  "Deconv3D_build fw self input_shape =
     (let self = self\<lparr>d_built := True\<rparr>;
          self = self\<lparr>d_kernel_size := triple (d_kernel_size self)\<rparr>;
          self = self\<lparr>d_strides := triple (d_strides self)\<rparr>
      in then_do
           (case d_output_shape self of
              None \<Rightarrow> Inr self
            | Some output_shape \<Rightarrow>
                then_do (collect (map (output_padding_at output_shape input_shape
                                         (d_strides self) (d_kernel_size self)) [0..<3]))
                  (\<lambda>ps. Inr (self\<lparr>d_padding := ''same'', d_output_padding := Some ps\<rparr>)))
           (\<lambda>self.
              then_do (Conv3DTranspose_init fw (d_name self @ ''/_Conv3DTranspose'')
                         \<lparr>ct_filters = d_filters self, ct_kernel_size = d_kernel_size self,
                          ct_strides = d_strides self, ct_padding = d_padding self,
                          ct_output_padding = d_output_padding self,
                          ct_kwargs = d_kwargs self\<rparr>)
                (\<lambda>layer. Inr (self\<lparr>d_Conv3DTranspose := Some layer\<rparr>))))"

definition Deconv3D_call :: "'a Deconv3D \<Rightarrow> 'a tensor \<Rightarrow> error + 'a tensor" where
  "Deconv3D_call self inputs =
     (case d_Conv3DTranspose self of None \<Rightarrow> Inl TypeError | Some layer \<Rightarrow> Inr (layer inputs))"

text \<open>
  Calling the layer object (Keras \<^verbatim>\<open>Layer.__call__\<close>): a layer that is not built yet is
  built with the shape of the input, then \<^verbatim>\<open>call\<close> runs.
\<close>

definition Deconv3D_apply ::
  "'a framework \<Rightarrow> 'a Deconv3D \<Rightarrow> 'a tensor \<Rightarrow> error + 'a tensor" where
  "Deconv3D_apply fw self inputs =
     (if d_built self then Deconv3D_call self inputs
      else then_do (Deconv3D_build fw self (shape inputs)) (\<lambda>self. Deconv3D_call self inputs))"

section \<open>Resize3d\<close>

record Resize3d =
  r_size :: "nat list"
  r_method :: ResizeMethod

definition Resize3d_init :: "nat list \<Rightarrow> ResizeMethod \<Rightarrow> Resize3d" where
  "Resize3d_init sz method = \<lparr>r_size = sz, r_method = method\<rparr>"

definition Resize3d_call :: "'a framework \<Rightarrow> Resize3d \<Rightarrow> 'a tensor \<Rightarrow> error + 'a tensor" where
  "Resize3d_call fw self inputs =
     (let input_shape = shape inputs in
      then_do (getitem input_shape 0) (\<lambda>i0.
      then_do (getitem input_shape 1) (\<lambda>i1.
      then_do (getitem input_shape 2) (\<lambda>i2.
      then_do (getitem input_shape 3) (\<lambda>i3.
      then_do (getitem input_shape 4) (\<lambda>i4.
      then_do (tf_reshape inputs [i0 * i1, i2, i3, i4]) (\<lambda>output.
      then_do (getitem (r_size self) 1) (\<lambda>s1.
      then_do (getitem (r_size self) 2) (\<lambda>s2.
      then_do (tf_image_resize fw output s1 s2 (r_method self)) (\<lambda>output.
      then_do (tf_reshape output [i0, i1, s1, s2 * i4]) (\<lambda>output.
      then_do (getitem (r_size self) 0) (\<lambda>s0.
      then_do (tf_image_resize fw output s0 s1 (r_method self)) (\<lambda>output.
        tf_reshape output [i0, s0, s1, s2, i4])))))))))))))"

section \<open>Conv3dBlock and Deconv3dBlock\<close>

record 'a Conv3dBlock =
  cb_conv3d :: "'a tensor \<Rightarrow> 'a tensor"
  cb_batch_norm :: "'a tensor \<Rightarrow> bool option \<Rightarrow> 'a tensor"
  cb_relu :: "'a tensor \<Rightarrow> 'a tensor"

definition Conv3dBlock_init ::
  "'a framework \<Rightarrow> string \<Rightarrow> int \<Rightarrow> size_arg \<Rightarrow> size_arg \<Rightarrow> string \<Rightarrow> 'a Conv3dBlock" where
  "Conv3dBlock_init fw name filters kernel_size strides padding =
     \<lparr>cb_conv3d = lu_conv3d fw (name @ ''/_conv3d'')
                    \<lparr>cv_filters = filters, cv_kernel_size = Some kernel_size,
                     cv_strides = Some strides, cv_padding = Some padding\<rparr>,
      cb_batch_norm = lu_batch_norm fw (name @ ''/_batch_norm''),
      cb_relu = lu_act fw ''relu''\<rparr>"

definition Conv3dBlock_call :: "'a Conv3dBlock \<Rightarrow> 'a tensor \<Rightarrow> bool option \<Rightarrow> 'a tensor" where
  "Conv3dBlock_call self inputs training =
     (let output = cb_conv3d self inputs;
          output = cb_batch_norm self output training;
          output = cb_relu self output
      in output)"

record 'a Deconv3dBlock =
  db_deconv3d :: "'a Deconv3D"
  db_batch_norm :: "'a tensor \<Rightarrow> bool option \<Rightarrow> 'a tensor"
  db_relu :: "'a tensor \<Rightarrow> 'a tensor"

definition Deconv3dBlock_init ::
  "'a framework \<Rightarrow> string \<Rightarrow> int \<Rightarrow> nat list option \<Rightarrow> size_arg \<Rightarrow> size_arg \<Rightarrow> string
     \<Rightarrow> 'a Deconv3dBlock" where
  "Deconv3dBlock_init fw name filters output_shape kernel_size strides padding =
     \<lparr>db_deconv3d = Deconv3D_init (name @ ''/_deconv3d'') filters output_shape kernel_size
                      strides padding [],
      db_batch_norm = lu_batch_norm fw (name @ ''/_batch_norm''),
      db_relu = lu_act fw ''relu''\<rparr>"

definition Deconv3dBlock_call ::
  "'a framework \<Rightarrow> 'a Deconv3dBlock \<Rightarrow> 'a tensor \<Rightarrow> bool option \<Rightarrow> error + 'a tensor" where
  "Deconv3dBlock_call fw self inputs training =
     then_do (Deconv3D_apply fw (db_deconv3d self) inputs) (\<lambda>output.
       (let output = db_batch_norm self output training;
            output = db_relu self output
        in Inr output))"

section \<open>AdditiveUpSampling\<close>

record AdditiveUpSampling =
  au_stride :: nat
  au_resize3d :: Resize3d

definition AdditiveUpSampling_init :: "nat list \<Rightarrow> nat \<Rightarrow> AdditiveUpSampling" where
  "AdditiveUpSampling_init output_shape stride =
     \<lparr>au_stride = stride, au_resize3d = Resize3d_init output_shape BILINEAR\<rparr>"

text \<open>\<^verbatim>\<open>a % b != 0\<close> on Python's integers (here both are not negative).\<close>

definition not_divisible :: "nat \<Rightarrow> nat \<Rightarrow> error + bool" where
  "not_divisible a b = (if b = 0 then Inl ZeroDivisionError else Inr (a mod b \<noteq> 0))"

definition AdditiveUpSampling_call ::
  "('a::monoid_add) framework \<Rightarrow> AdditiveUpSampling \<Rightarrow> 'a tensor \<Rightarrow> error + 'a tensor" where
  "AdditiveUpSampling_call fw self inputs =
     then_do (getitem (shape inputs) 4) (\<lambda>channels.
     then_do (not_divisible channels (au_stride self)) (\<lambda>bad.
       if bad then Inl ValueError
       else
         then_do (Resize3d_call fw (au_resize3d self) inputs) (\<lambda>output.
         then_do (tf_split output (au_stride self) 4) (\<lambda>output.
         then_do (tf_stack output 5) (\<lambda>stacked.
           tf_reduce_sum stacked 5)))))"

section \<open>DownSampleResnetBlock\<close>

record 'a DownSampleResnetBlock =
  ds_use_pooling :: bool
  ds_conv3d_block1 :: "'a Conv3dBlock"
  ds_conv3d_block2 :: "'a Conv3dBlock"
  ds_conv3d :: "'a tensor \<Rightarrow> 'a tensor"
  ds_batch_norm :: "'a tensor \<Rightarrow> bool option \<Rightarrow> 'a tensor"
  ds_relu :: "'a tensor \<Rightarrow> 'a tensor"
  ds_max_pool3d :: "'a tensor \<Rightarrow> 'a tensor"
  ds_conv3d_block3 :: "'a Conv3dBlock"

definition DownSampleResnetBlock_init ::
  "'a framework \<Rightarrow> string \<Rightarrow> int \<Rightarrow> size_arg \<Rightarrow> bool \<Rightarrow> 'a DownSampleResnetBlock" where
  "DownSampleResnetBlock_init fw name filters kernel_size use_pooling =
     \<lparr>ds_use_pooling = use_pooling,
      ds_conv3d_block1 = Conv3dBlock_init fw (name @ ''/_conv3d_block1'') filters kernel_size
                           (IntArg 1) ''same'',
      ds_conv3d_block2 = Conv3dBlock_init fw (name @ ''/_conv3d_block2'') filters kernel_size
                           (IntArg 1) ''same'',
      ds_conv3d = lu_conv3d fw (name @ ''/_conv3d'')
                    \<lparr>cv_filters = filters, cv_kernel_size = Some kernel_size,
                     cv_strides = Some (IntArg 1), cv_padding = None\<rparr>,
      ds_batch_norm = lu_batch_norm fw (name @ ''/_batch_norm''),
      ds_relu = lu_act fw ''relu'',
      ds_max_pool3d = lu_max_pool3d fw [2, 2, 2] [2, 2, 2],
      ds_conv3d_block3 = Conv3dBlock_init fw (name @ ''/_conv3d_block3'') filters kernel_size
                           (IntArg 2) ''same''\<rparr>"

definition DownSampleResnetBlock_call ::
  "('a::monoid_add) DownSampleResnetBlock \<Rightarrow> 'a tensor \<Rightarrow> bool option
     \<Rightarrow> error + 'a tensor \<times> 'a tensor" where
  "DownSampleResnetBlock_call self inputs training =
     (let h0 = Conv3dBlock_call (ds_conv3d_block1 self) inputs training;
          r1 = Conv3dBlock_call (ds_conv3d_block2 self) h0 training
      in then_do (tf_add (ds_batch_norm self (ds_conv3d self r1) training) h0) (\<lambda>s.
           (let r2 = ds_relu self s;
                h1 = (if ds_use_pooling self then ds_max_pool3d self r2
                      else Conv3dBlock_call (ds_conv3d_block3 self) r2 training)
            in Inr (h1, h0))))"

section \<open>UpSampleResnetBlock\<close>

record 'a UpSampleResnetBlock =
  us_name :: string
  us_filters :: int
  us_use_additive_upsampling :: bool
  us_deconv3d_block :: "'a Deconv3dBlock option"
  us_additive_upsampling :: "AdditiveUpSampling option"
  us_conv3d_block :: "'a Conv3dBlock"
  us_conv3d :: "'a tensor \<Rightarrow> 'a tensor"
  us_batch_norm :: "'a tensor \<Rightarrow> bool option \<Rightarrow> 'a tensor"
  us_relu :: "'a tensor \<Rightarrow> 'a tensor"

definition UpSampleResnetBlock_init ::
  "'a framework \<Rightarrow> string \<Rightarrow> int \<Rightarrow> bool \<Rightarrow> 'a UpSampleResnetBlock" where
  "UpSampleResnetBlock_init fw name filters use_additive_upsampling =
     \<lparr>us_name = name,
      us_filters = filters,
      us_use_additive_upsampling = use_additive_upsampling,
      us_deconv3d_block = None,
      us_additive_upsampling = None,
      us_conv3d_block = Conv3dBlock_init fw (name @ ''/_conv3d_block'') filters (IntArg 3)
                          (IntArg 1) ''same'',
      us_conv3d = lu_conv3d fw (name @ ''/_conv3d'')
                    \<lparr>cv_filters = filters, cv_kernel_size = None,
                     cv_strides = Some (IntArg 1), cv_padding = None\<rparr>,
      us_batch_norm = lu_batch_norm fw (name @ ''/_batch_norm''),
      us_relu = lu_act fw ''relu''\<rparr>"

definition UpSampleResnetBlock_build ::
  "'a framework \<Rightarrow> 'a UpSampleResnetBlock \<Rightarrow> nat list nest \<Rightarrow> error + 'a UpSampleResnetBlock"
  where
  "UpSampleResnetBlock_build fw self input_shape =
     (case input_shape of
        One s \<Rightarrow> Inl ValueError
      | Many shapes \<Rightarrow>
          if length shapes \<noteq> 2 then Inl ValueError
          else
            (let output_shape = take 3 (drop 1 (shapes ! 1));
                 self = self\<lparr>us_deconv3d_block :=
                          Some (Deconv3dBlock_init fw (us_name self @ ''/_deconv3d_block'')
                                  (us_filters self) (Some output_shape)
                                  (IntArg 3) (IntArg 2) ''same'')\<rparr>
             in Inr (if us_use_additive_upsampling self
                     then self\<lparr>us_additive_upsampling :=
                            Some (AdditiveUpSampling_init output_shape 2)\<rparr>
                     else self)))"

definition UpSampleResnetBlock_call ::
  "('a::monoid_add) framework \<Rightarrow> 'a UpSampleResnetBlock \<Rightarrow> 'a tensor nest \<Rightarrow> bool option
     \<Rightarrow> error + 'a tensor" where
  "UpSampleResnetBlock_call fw self inputs training =
     (case inputs of
        One t \<Rightarrow> Inl ValueError
      | Many ts \<Rightarrow>
          if length ts \<noteq> 2 then Inl ValueError
          else
            (let inputs_nonskip = ts ! 0; inputs_skip = ts ! 1 in
             then_do (case us_deconv3d_block self of
                        None \<Rightarrow> Inl TypeError
                      | Some blk \<Rightarrow> Deconv3dBlock_call fw blk inputs_nonskip training) (\<lambda>h0.
             then_do (if us_use_additive_upsampling self
                      then then_do (case us_additive_upsampling self of
                                      None \<Rightarrow> Inl TypeError
                                    | Some au \<Rightarrow> AdditiveUpSampling_call fw au inputs_nonskip)
                             (\<lambda>up. tf_add h0 up)
                      else Inr h0) (\<lambda>h0.
             then_do (tf_add h0 inputs_skip) (\<lambda>r1.
               (let r2 = Conv3dBlock_call (us_conv3d_block self) h0 training
                in then_do (tf_add (us_batch_norm self (us_conv3d self r2) training) r1)
                     (\<lambda>s. Inr (us_relu self s))))))))"

section \<open>DDFSummand\<close>

record 'a DDFSummand =
  ddf_output_shape :: "nat list"
  ddf_conv3d :: "'a tensor \<Rightarrow> 'a tensor"
  ddf_resize3d :: Resize3d

definition DDFSummand_init ::
  "'a framework \<Rightarrow> string \<Rightarrow> nat list \<Rightarrow> int \<Rightarrow> 'a DDFSummand" where
  "DDFSummand_init fw name output_shape filters =
     \<lparr>ddf_output_shape = output_shape,
      ddf_conv3d = lu_conv3d fw (name @ ''/_conv3d'')
                     \<lparr>cv_filters = filters, cv_kernel_size = None,
                      cv_strides = Some (IntArg 1), cv_padding = None\<rparr>,
      ddf_resize3d = Resize3d_init output_shape BILINEAR\<rparr>"

text \<open>
  \<^verbatim>\<open>inputs.shape != self._output_shape\<close>: the list is read as a shape and the two
  sequences of dimensions are compared.
\<close>

definition DDFSummand_call ::
  "'a framework \<Rightarrow> 'a DDFSummand \<Rightarrow> 'a tensor \<Rightarrow> error + 'a tensor" where
  "DDFSummand_call fw self inputs =
     (let output = ddf_conv3d self inputs
      in if shape inputs \<noteq> ddf_output_shape self
         then Resize3d_call fw (ddf_resize3d self) output
         else Inr output)"

section \<open>A concrete framework for the examples\<close>

text \<open>
  The examples run the layers on integer tensors. The layers of the example framework
  give the shapes the framework's layers give (channels last, the lengths of a
  convolution, a transposed convolution and a pooling along each spatial axis); the
  convolutions have weights zero, the normalisation is the identity, the activation is
  the rectifier and the resize takes the nearest pixel, at half-pixel centres, whatever
  the method.
\<close>

fun arg_item :: "size_arg \<Rightarrow> nat \<Rightarrow> int" where
  "arg_item (IntArg n) i = n"
| "arg_item (ListArg xs) i = xs ! i"

definition deconv_length :: "nat \<Rightarrow> int \<Rightarrow> int \<Rightarrow> string \<Rightarrow> int option \<Rightarrow> nat" where
  "deconv_length n k s padding output_padding =
     (case output_padding of
        None \<Rightarrow> (if padding = ''valid'' then nat (int n * s + max (k - s) 0)
                 else nat (int n * s))
      | Some p \<Rightarrow> nat ((int n - 1) * s + k
                       - 2 * (if padding = ''same'' then k div 2 else 0) + p))"

definition conv_length :: "nat \<Rightarrow> int \<Rightarrow> int \<Rightarrow> string \<Rightarrow> nat" where
  "conv_length n k s padding =
     (if padding = ''valid'' then nat ((int n - k) div s + 1)
      else nat ((int n + s - 1) div s))"

definition example_deconv :: "conv3d_transpose_args \<Rightarrow> int tensor \<Rightarrow> int tensor" where
  "example_deconv args t =
     \<lparr>shape = shape t ! 0
              # map (\<lambda>i. deconv_length (shape t ! (1 + i)) (arg_item (ct_kernel_size args) i)
                            (arg_item (ct_strides args) i) (ct_padding args)
                            (map_option (\<lambda>ps. ps ! i) (ct_output_padding args))) [0, 1, 2]
              @ [nat (ct_filters args)],
      buf = (\<lambda>j. 0)\<rparr>"

definition example_conv :: "conv3d_args \<Rightarrow> int tensor \<Rightarrow> int tensor" where
  "example_conv args t =
     \<lparr>shape = shape t ! 0
              # map (\<lambda>i. conv_length (shape t ! (1 + i))
                            (case cv_kernel_size args of None \<Rightarrow> 3 | Some k \<Rightarrow> arg_item k i)
                            (case cv_strides args of None \<Rightarrow> 1 | Some s \<Rightarrow> arg_item s i)
                            (case cv_padding args of None \<Rightarrow> ''same'' | Some p \<Rightarrow> p)) [0, 1, 2]
              @ [nat (cv_filters args)],
      buf = (\<lambda>j. 0)\<rparr>"

definition example_max_pool :: "int list \<Rightarrow> int list \<Rightarrow> int tensor \<Rightarrow> int tensor" where
  "example_max_pool pool_size strides t =
     (let d = (\<lambda>i. shape t ! i); c = d 4;
          p = (\<lambda>i. nat (pool_size ! i)); s = (\<lambda>i. nat (strides ! i));
          e = (\<lambda>i. (d (1 + i) - p i) div s i + 1)
      in \<lparr>shape = [d 0, e 0, e 1, e 2, c],
          buf = (\<lambda>j. let x = (j div c) mod e 2; y = (j div (c * e 2)) mod e 1;
                          z = (j div (c * e 2 * e 1)) mod e 0; n = j div (c * e 2 * e 1 * e 0)
                      in Max (set (concat (map (\<lambda>dz. concat (map (\<lambda>dy. map (\<lambda>dx.
                           buf t ((((n * d 1 + z * s 0 + dz) * d 2 + y * s 1 + dy) * d 3
                                   + x * s 2 + dx) * c + j mod c))
                           [0..<p 2]) [0..<p 1])) [0..<p 0]))))\<rparr>)"

definition nearest_values :: "ResizeMethod \<Rightarrow> nat \<Rightarrow> nat \<Rightarrow> int tensor \<Rightarrow> nat \<Rightarrow> int" where
  "nearest_values method h w images =
     (\<lambda>j. let height = shape images ! 1; width = shape images ! 2; c = shape images ! 3;
              n = j div (h * w * c); y = (j div (w * c)) mod h; x = (j div c) mod w;
              sy = min (height - 1) (((2 * y + 1) * height) div (2 * h));
              sx = min (width - 1) (((2 * x + 1) * width) div (2 * w))
          in buf images (((n * height + sy) * width + sx) * c + j mod c))"

definition example_framework :: "int framework" where
  "example_framework =
     \<lparr>Conv3DTranspose = (\<lambda>name args. Some (example_deconv args)),
      lu_conv3d = (\<lambda>name. example_conv),
      lu_batch_norm = (\<lambda>name t training. t),
      lu_act = (\<lambda>identifier t. t\<lparr>buf := (\<lambda>j. max 0 (buf t j))\<rparr>),
      lu_max_pool3d = example_max_pool,
      resize_values = nearest_values\<rparr>"

definition example_tensor :: "nat list \<Rightarrow> int tensor" where
  "example_tensor s = \<lparr>shape = s, buf = int\<rparr>"

section \<open>Auxiliary facts\<close>

lemma then_do_Inr [simp]: "then_do (Inr v) f = f v"
  by (simp add: then_do_def)

lemma then_do_Inl [simp]: "then_do (Inl e) f = Inl e"
  by (simp add: then_do_def)

lemma getitem_in_range: "i < length xs \<Longrightarrow> getitem xs i = Inr (xs ! i)"
  by (simp add: getitem_def)

lemma getitem_out_of_range: "length xs \<le> i \<Longrightarrow> getitem xs i = Inl IndexError"
  by (simp add: getitem_def)

lemma upt_3: "[0..<3] = [0, 1, 2]"
  by (simp add: upt_rec)

lemma length_5_cases:
  assumes "length xs = 5"
  obtains a b c d e where "xs = [a, b, c, d, e]"
proof -
  from assms obtain a r1 where "xs = a # r1" "length r1 = 4" by (cases xs) auto
  moreover then obtain b r2 where "r1 = b # r2" "length r2 = 3" by (cases r1) auto
  moreover then obtain c r3 where "r2 = c # r3" "length r3 = 2" by (cases r2) auto
  moreover then obtain d r4 where "r3 = d # r4" "length r4 = 1" by (cases r3) auto
  moreover then obtain e where "r4 = [e]" by (cases r4) auto
  ultimately show ?thesis using that by simp
qed

lemma Resize3d_call_5d:
  assumes "length (shape inputs) = 5" and "3 \<le> length (r_size self)"
    and "\<forall>d\<in>set (tl (shape inputs)). 0 < d" and "\<forall>s\<in>set (take 3 (r_size self)). 0 < s"
  shows "Resize3d_call fw self inputs =
           Inr \<lparr>shape = [shape inputs ! 0, r_size self ! 0, r_size self ! 1, r_size self ! 2,
                         shape inputs ! 4],
                buf = resize_values fw (r_method self) (r_size self ! 0) (r_size self ! 1)
                  \<lparr>shape = [shape inputs ! 0, shape inputs ! 1, r_size self ! 1,
                            r_size self ! 2 * shape inputs ! 4],
                   buf = resize_values fw (r_method self) (r_size self ! 1) (r_size self ! 2)
                     (inputs\<lparr>shape := [shape inputs ! 0 * shape inputs ! 1, shape inputs ! 2,
                                        shape inputs ! 3, shape inputs ! 4]\<rparr>)\<rparr>\<rparr>"
proof -
  obtain a b c d e where s: "shape inputs = [a, b, c, d, e]"
    using assms(1) by (rule length_5_cases)
  from assms(2) obtain s0 s1 s2 rest where z: "r_size self = s0 # s1 # s2 # rest"
    by (cases "r_size self"; simp; case_tac list; simp; case_tac lista; simp)
  from assms(3,4) show ?thesis
    by (simp add: Resize3d_call_def s z getitem_def tf_reshape_def tf_image_resize_def
        mult.assoc)
qed

lemma Resize3d_call_zero:
  assumes "length (shape inputs) = 5" and "3 \<le> length (r_size self)"
    and "\<not> ((\<forall>d\<in>set (tl (shape inputs)). 0 < d) \<and> (\<forall>s\<in>set (take 3 (r_size self)). 0 < s))"
  shows "Resize3d_call fw self inputs = Inl OpError"
proof -
  obtain a b c d e where s: "shape inputs = [a, b, c, d, e]"
    using assms(1) by (rule length_5_cases)
  from assms(2) obtain s0 s1 s2 rest where z: "r_size self = s0 # s1 # s2 # rest"
    by (cases "r_size self"; simp; case_tac list; simp; case_tac lista; simp)
  from assms(3) show ?thesis
    by (auto simp: Resize3d_call_def s z getitem_def tf_reshape_def tf_image_resize_def
        mult.assoc)
qed

lemma Resize3d_call_short_size:
  assumes "length (shape inputs) = 5" and "length (r_size self) < 3"
  shows "Resize3d_call fw self inputs = Inl IndexError \<or> Resize3d_call fw self inputs = Inl OpError"
proof -
  obtain a b c d e where s: "shape inputs = [a, b, c, d, e]"
    using assms(1) by (rule length_5_cases)
  show ?thesis
  proof (cases "length (r_size self) < 2")
    case True
    then show ?thesis
      by (simp add: Resize3d_call_def s getitem_def tf_reshape_def mult.assoc)
  next
    case False
    with assms(2) have "length (r_size self) = 2" by simp
    then show ?thesis
      by (simp add: Resize3d_call_def s getitem_def tf_reshape_def tf_image_resize_def
          mult.assoc)
  qed
qed

lemma Resize3d_call_5d_cases:
  assumes "length (shape inputs) = 5"
  shows "Resize3d_call fw self inputs = Inl IndexError
       \<or> Resize3d_call fw self inputs = Inl OpError
       \<or> (\<exists>t. Resize3d_call fw self inputs = Inr t
              \<and> shape t = [shape inputs ! 0, r_size self ! 0, r_size self ! 1, r_size self ! 2,
                           shape inputs ! 4])"
proof (cases "3 \<le> length (r_size self)")
  case False
  then show ?thesis using Resize3d_call_short_size [OF assms, of self fw] by auto
next
  case long: True
  show ?thesis
  proof (cases "(\<forall>d\<in>set (tl (shape inputs)). 0 < d) \<and> (\<forall>s\<in>set (take 3 (r_size self)). 0 < s)")
    case True
    then show ?thesis using Resize3d_call_5d [OF assms long, of fw] by simp
  next
    case False
    then show ?thesis using Resize3d_call_zero [OF assms long, of fw] by simp
  qed
qed

lemma shape_split_piece:
  "shape (split_piece t num axis k) = (shape t)[axis := shape t ! axis div num]"
  by (simp add: split_piece_def Let_def)

lemma buf_split_piece_last:
  assumes "length (shape t) = Suc axis"
  shows "buf (split_piece t num axis k) j =
           buf t ((j div (shape t ! axis div num)) * (shape t ! axis)
                  + k * (shape t ! axis div num) + j mod (shape t ! axis div num))"
  using assms by (simp add: split_piece_def Let_def)

lemma tf_split_last:
  assumes "length (shape t) = Suc axis" and "0 < num" and "shape t ! axis mod num = 0"
  shows "tf_split t num axis = Inr (map (split_piece t num axis) [0..<num])"
  using assms by (simp add: tf_split_def)

lemma tf_stack_pieces:
  assumes "0 < num" and "length (shape t) = Suc axis"
  shows "tf_stack (map (split_piece t num axis) [0..<num]) (Suc axis) =
           Inr \<lparr>shape = (shape t)[axis := shape t ! axis div num] @ [num],
                buf = (\<lambda>j. buf (split_piece t num axis (j mod num)) (j div num))\<rparr>"
proof -
  have hd: "hd (map (split_piece t num axis) [0..<num]) = split_piece t num axis 0"
    using assms(1) by (simp add: hd_map upt_conv_Cons)
  have ne: "map (split_piece t num axis) [0..<num] \<noteq> []"
    using assms(1) by simp
  have all: "list_all (\<lambda>u. shape u = shape (split_piece t num axis 0))
               (map (split_piece t num axis) [0..<num])"
    by (simp add: list_all_iff shape_split_piece)
  show ?thesis
    unfolding tf_stack_def hd
    using assms ne all
    by (simp add: shape_split_piece Let_def)
qed

lemma tf_reduce_sum_last:
  assumes "length (shape t) = Suc axis"
  shows "tf_reduce_sum t axis =
           Inr \<lparr>shape = butlast (shape t),
                buf = (\<lambda>j. sum_list (map (\<lambda>k. buf t (j * shape t ! axis + k))
                                         [0..<shape t ! axis]))\<rparr>"
  using assms by (simp add: tf_reduce_sum_def Let_def butlast_conv_take)

lemma group_sum_tail:
  fixes resized :: "('a::monoid_add) tensor"
  assumes len: "length (shape resized) = 5" and pos: "0 < stride"
    and dvd: "shape resized ! 4 mod stride = 0"
  shows "then_do (tf_split resized stride 4) (\<lambda>ps.
         then_do (tf_stack ps 5) (\<lambda>stacked. tf_reduce_sum stacked 5)) =
           Inr \<lparr>shape = (shape resized)[4 := shape resized ! 4 div stride],
                buf = (\<lambda>j. sum_list (map (\<lambda>k. buf resized
                          ((j div (shape resized ! 4 div stride)) * (shape resized ! 4)
                           + k * (shape resized ! 4 div stride)
                           + j mod (shape resized ! 4 div stride))) [0..<stride]))\<rparr>"
proof -
  let ?g = "shape resized ! 4 div stride"
  let ?stacked = "\<lparr>shape = (shape resized)[4 := ?g] @ [stride],
                   buf = (\<lambda>j. buf (split_piece resized stride 4 (j mod stride)) (j div stride))\<rparr>"
  have len': "length (shape resized) = Suc 4" using len by simp
  have five: "(5::nat) = Suc 4" by simp
  have split: "tf_split resized stride 4 = Inr (map (split_piece resized stride 4) [0..<stride])"
    using len' pos dvd by (rule tf_split_last)
  have stack: "tf_stack (map (split_piece resized stride 4) [0..<stride]) 5 = Inr ?stacked"
    unfolding five using pos len' by (rule tf_stack_pieces)
  have "length (shape ?stacked) = Suc 5" using len by simp
  then have red: "tf_reduce_sum ?stacked 5 =
      Inr \<lparr>shape = butlast (shape ?stacked),
           buf = (\<lambda>j. sum_list (map (\<lambda>k. buf ?stacked (j * shape ?stacked ! 5 + k))
                                    [0..<shape ?stacked ! 5]))\<rparr>"
    by (rule tf_reduce_sum_last)
  have nth: "shape ?stacked ! 5 = stride" using len by (simp add: nth_append)
  have terms: "map (\<lambda>k. buf ?stacked (j * stride + k)) [0..<stride] =
               map (\<lambda>k. buf resized ((j div ?g) * (shape resized ! 4) + k * ?g + j mod ?g))
                 [0..<stride]" for j
  proof (rule map_cong [OF refl])
    fix k assume "k \<in> set [0..<stride]"
    then have k: "k < stride" by simp
    then have "(j * stride + k) mod stride = k" and "(j * stride + k) div stride = j"
      by simp_all
    then show "buf ?stacked (j * stride + k) =
               buf resized ((j div ?g) * (shape resized ! 4) + k * ?g + j mod ?g)"
      using len' by (simp add: buf_split_piece_last)
  qed
  show ?thesis
    unfolding split then_do_Inr stack red nth terms by simp
qed

lemma broadcast_dims_same: "broadcast_dims xs xs = Some xs"
  by (induction xs) simp_all

lemma broadcast_source_same:
  "j < prod_list xs \<Longrightarrow> broadcast_source xs xs j = j"
proof (induction xs arbitrary: j)
  case Nil
  then show ?case by simp
next
  case (Cons x xs)
  from Cons.prems have "j div x < prod_list xs"
    by (simp add: less_mult_imp_div_less mult.commute)
  then have ih: "broadcast_source xs xs (j div x) = j div x" by (rule Cons.IH)
  show ?case
  proof (cases "x = 1")
    case True
    then show ?thesis using ih by simp
  next
    case False
    then show ?thesis using ih by (simp add: mult.commute)
  qed
qed

lemma tf_add_same_shape:
  fixes a b :: "('a::monoid_add) tensor"
  assumes "shape a = shape b"
  shows "\<exists>s. tf_add a b = Inr s \<and> shape s = shape b
            \<and> (\<forall>j<prod_list (shape b). buf s j = buf a j + buf b j)"
  using assms by (simp add: tf_add_def broadcast_dims_same broadcast_source_same)

lemma Conv3DTranspose_init_cases:
  "Conv3DTranspose_init fw name args = Inl ValueError
   \<or> (\<exists>layer. Conv3DTranspose_init fw name args = Inr layer)"
  by (simp add: Conv3DTranspose_init_def split: option.splits)

lemma Deconv3dBlock_call_cases:
  assumes "length output_shape = 3" and "4 \<le> length (shape inputs)"
  shows "Deconv3dBlock_call fw
           (Deconv3dBlock_init fw name filters (Some output_shape) (IntArg 3) (IntArg 2) ''same'')
           inputs training = Inl ValueError
       \<or> (\<exists>h. Deconv3dBlock_call fw
             (Deconv3dBlock_init fw name filters (Some output_shape) (IntArg 3) (IntArg 2)
                ''same'')
             inputs training = Inr h)"
proof -
  let ?pads = "map (\<lambda>i. int (output_shape ! i)
                         - ((int (shape inputs ! (1 + i)) - 1) * [2, 2, 2] ! i
                             + [3, 3, 3] ! i - 2 * ([3, 3, 3] ! i div 2))) [0, 1, 2]"
  let ?args = "\<lparr>ct_filters = filters, ct_kernel_size = ListArg [3, 3, 3],
                ct_strides = ListArg [2, 2, 2], ct_padding = ''same'',
                ct_output_padding = Some ?pads, ct_kwargs = []\<rparr>"
  have build: "Deconv3D_build fw
        (Deconv3D_init (name @ ''/_deconv3d'') filters (Some output_shape) (IntArg 3) (IntArg 2)
           ''same'' []) (shape inputs) =
      then_do (Conv3DTranspose_init fw ((name @ ''/_deconv3d'') @ ''/_Conv3DTranspose'') ?args)
        (\<lambda>layer. Inr \<lparr>d_name = name @ ''/_deconv3d'', d_filters = filters,
                    d_output_shape = Some output_shape, d_kernel_size = ListArg [3, 3, 3],
                    d_strides = ListArg [2, 2, 2], d_padding = ''same'', d_kwargs = [],
                    d_output_padding = Some ?pads, d_Conv3DTranspose = Some layer,
                    d_built = True\<rparr>)"
    using assms
    by (simp add: Deconv3D_build_def Deconv3D_init_def output_padding_at_def upt_3
        getitem_in_range Let_def numeral_3_eq_3 numeral_2_eq_2)
  have app: "Deconv3D_apply fw
        (Deconv3D_init (name @ ''/_deconv3d'') filters (Some output_shape) (IntArg 3) (IntArg 2)
           ''same'' []) inputs =
      then_do (Deconv3D_build fw
        (Deconv3D_init (name @ ''/_deconv3d'') filters (Some output_shape) (IntArg 3) (IntArg 2)
           ''same'' []) (shape inputs)) (\<lambda>self. Deconv3D_call self inputs)"
    by (simp add: Deconv3D_apply_def Deconv3D_init_def)
  from Conv3DTranspose_init_cases [of fw "(name @ ''/_deconv3d'') @ ''/_Conv3DTranspose''" ?args]
  show ?thesis
  proof (elim disjE exE)
    assume "Conv3DTranspose_init fw ((name @ ''/_deconv3d'') @ ''/_Conv3DTranspose'') ?args
            = Inl ValueError"
    then show ?thesis
      unfolding Deconv3dBlock_call_def Deconv3dBlock_init_def
      by (simp add: app build del: append_assoc)
  next
    fix layer
    assume "Conv3DTranspose_init fw ((name @ ''/_deconv3d'') @ ''/_Conv3DTranspose'') ?args
            = Inr layer"
    then show ?thesis
      unfolding Deconv3dBlock_call_def Deconv3dBlock_init_def
      by (simp add: app build Deconv3D_call_def Let_def del: append_assoc)
  qed
qed

lemma AdditiveUpSampling_call_odd:
  fixes fw :: "('a::monoid_add) framework"
  assumes "length (shape inputs) = 5" and "shape inputs ! 4 mod 2 \<noteq> 0"
  shows "AdditiveUpSampling_call fw (AdditiveUpSampling_init output_shape 2) inputs
           = Inl ValueError"
  using assms
  by (simp add: AdditiveUpSampling_call_def AdditiveUpSampling_init_def getitem_in_range
      not_divisible_def)

lemma UpSampleResnetBlock_build_pair:
  "UpSampleResnetBlock_build fw (UpSampleResnetBlock_init fw name filters additive)
     (Many [s0, s1]) =
   Inr ((UpSampleResnetBlock_init fw name filters additive)
          \<lparr>us_deconv3d_block :=
             Some (Deconv3dBlock_init fw (name @ ''/_deconv3d_block'') filters
                     (Some (take 3 (drop 1 s1))) (IntArg 3) (IntArg 2) ''same''),
           us_additive_upsampling :=
             (if additive then Some (AdditiveUpSampling_init (take 3 (drop 1 s1)) 2)
              else None)\<rparr>)"
  by (simp add: UpSampleResnetBlock_build_def UpSampleResnetBlock_init_def Let_def)

lemma AdditiveUpSampling_call_returns:
  fixes fw :: "('a::monoid_add) framework"
  assumes "length (shape inputs) = 5" and "length output_shape = 3" and "0 < stride"
    and "shape inputs ! 4 mod stride = 0"
    and "\<forall>d\<in>set (tl (shape inputs)). 0 < d" and "\<forall>s\<in>set output_shape. 0 < s"
  shows "\<exists>up. AdditiveUpSampling_call fw (AdditiveUpSampling_init output_shape stride) inputs
                = Inr up
            \<and> shape up = [shape inputs ! 0, output_shape ! 0, output_shape ! 1,
                           output_shape ! 2, shape inputs ! 4 div stride]"
proof -
  have long: "3 \<le> length (r_size (Resize3d_init output_shape BILINEAR))"
    and take: "take 3 (r_size (Resize3d_init output_shape BILINEAR)) = output_shape"
    using assms(2) by (simp_all add: Resize3d_init_def)
  note r = Resize3d_call_5d [OF assms(1) long, of fw, unfolded take, OF assms(5,6)]
  show ?thesis
    using assms(1-4)
    by (simp add: AdditiveUpSampling_call_def AdditiveUpSampling_init_def getitem_in_range
        not_divisible_def r [unfolded Resize3d_init_def, simplified] Resize3d_init_def
        group_sum_tail)
qed

section \<open>Deconv3D: the output padding\<close>

text \<open>
  Claim C1. A \<open>Deconv3D\<close> made with a 3-element \<open>output_shape\<close> is built, on an input shape
  with the three spatial axes, with padding \<open>same\<close> whatever padding the constructor was
  given, and with the output padding
  \<open>output_shape[i] - ((input_shape[1+i] - 1) * strides[i] + kernel_size[i] - 2 * (kernel_size[i] // 2))\<close>
  on each spatial axis \<open>i\<close>: these are the values the constructor of the transposed
  convolution is called with, and \<open>build\<close> returns what that constructor returns, the built
  layer when it accepts (as it does when every output padding is at least 0 and smaller
  than the stride, and the framework accepts the rest) and its ValueError when it
  rejects. Made without \<open>output_shape\<close>, the layer is built with the caller's padding and no
  output padding. Kernel size and strides are an int, or a list of three ints.
\<close>

theorem Deconv3D_build_output_padding:
  assumes "length output_shape = 3" and "4 \<le> length input_shape"
    and "triple kernel_size = ListArg ks" and "length ks = 3"
    and "triple strides = ListArg st" and "length st = 3"
  shows
   "(let pads = map (\<lambda>i. int (output_shape ! i)
                         - ((int (input_shape ! (1 + i)) - 1) * st ! i
                             + ks ! i - 2 * (ks ! i div 2))) [0, 1, 2];
         args = \<lparr>ct_filters = filters, ct_kernel_size = ListArg ks, ct_strides = ListArg st,
                 ct_padding = ''same'', ct_output_padding = Some pads, ct_kwargs = kw\<rparr>;
         built = (\<lambda>layer. \<lparr>d_name = name, d_filters = filters,
                    d_output_shape = Some output_shape, d_kernel_size = ListArg ks,
                    d_strides = ListArg st, d_padding = ''same'', d_kwargs = kw,
                    d_output_padding = Some pads, d_Conv3DTranspose = Some layer,
                    d_built = True\<rparr>);
         self = Deconv3D_init name filters (Some output_shape) kernel_size strides padding kw
     in Deconv3D_build fw self input_shape =
          then_do (Conv3DTranspose_init fw (name @ ''/_Conv3DTranspose'') args)
            (\<lambda>layer. Inr (built layer))
      \<and> (\<forall>layer. (\<forall>i<3. 0 \<le> pads ! i \<and> pads ! i < st ! i)
             \<and> Conv3DTranspose fw (name @ ''/_Conv3DTranspose'') args = Some layer
             \<longrightarrow> Deconv3D_build fw self input_shape = Inr (built layer)))
  \<and> (let args = \<lparr>ct_filters = filters, ct_kernel_size = ListArg ks, ct_strides = ListArg st,
                 ct_padding = padding, ct_output_padding = None, ct_kwargs = kw\<rparr>;
         built = (\<lambda>layer. \<lparr>d_name = name, d_filters = filters, d_output_shape = None,
                    d_kernel_size = ListArg ks, d_strides = ListArg st, d_padding = padding,
                    d_kwargs = kw, d_output_padding = None, d_Conv3DTranspose = Some layer,
                    d_built = True\<rparr>)
     in Deconv3D_build fw (Deconv3D_init name filters None kernel_size strides padding kw)
          input_shape =
          then_do (Conv3DTranspose_init fw (name @ ''/_Conv3DTranspose'') args)
            (\<lambda>layer. Inr (built layer)))"
proof -
  obtain s0 s1 s2 where st: "st = [s0, s1, s2]"
    using assms(6) by (cases st; simp; case_tac list; simp; case_tac lista; simp)
  have all3: "(\<forall>i<3. P i) \<longleftrightarrow> P 0 \<and> P 1 \<and> P (2::nat)" for P
    by (auto simp: numeral_3_eq_3 less_Suc_eq numeral_2_eq_2)
  have build: "Deconv3D_build fw
        (Deconv3D_init name filters (Some output_shape) kernel_size strides padding kw)
        input_shape =
      then_do (Conv3DTranspose_init fw (name @ ''/_Conv3DTranspose'')
          \<lparr>ct_filters = filters, ct_kernel_size = ListArg ks, ct_strides = ListArg st,
           ct_padding = ''same'',
           ct_output_padding = Some (map (\<lambda>i. int (output_shape ! i)
                         - ((int (input_shape ! (1 + i)) - 1) * st ! i
                             + ks ! i - 2 * (ks ! i div 2))) [0, 1, 2]),
           ct_kwargs = kw\<rparr>)
        (\<lambda>layer. Inr \<lparr>d_name = name, d_filters = filters,
                    d_output_shape = Some output_shape, d_kernel_size = ListArg ks,
                    d_strides = ListArg st, d_padding = ''same'', d_kwargs = kw,
                    d_output_padding = Some (map (\<lambda>i. int (output_shape ! i)
                         - ((int (input_shape ! (1 + i)) - 1) * st ! i
                             + ks ! i - 2 * (ks ! i div 2))) [0, 1, 2]),
                    d_Conv3DTranspose = Some layer, d_built = True\<rparr>)"
    using assms
    by (simp add: Deconv3D_build_def Deconv3D_init_def output_padding_at_def upt_3
        getitem_in_range Let_def numeral_3_eq_3 numeral_2_eq_2)
  have none: "Deconv3D_build fw
        (Deconv3D_init name filters None kernel_size strides padding kw) input_shape =
      then_do (Conv3DTranspose_init fw (name @ ''/_Conv3DTranspose'')
          \<lparr>ct_filters = filters, ct_kernel_size = ListArg ks, ct_strides = ListArg st,
           ct_padding = padding, ct_output_padding = None, ct_kwargs = kw\<rparr>)
        (\<lambda>layer. Inr \<lparr>d_name = name, d_filters = filters, d_output_shape = None,
                    d_kernel_size = ListArg ks, d_strides = ListArg st, d_padding = padding,
                    d_kwargs = kw, d_output_padding = None, d_Conv3DTranspose = Some layer,
                    d_built = True\<rparr>)"
    using assms
    by (simp add: Deconv3D_build_def Deconv3D_init_def Let_def)
  show ?thesis
    unfolding Let_def build none
    by (auto simp: Conv3DTranspose_init_def st all3)
qed

theorem Deconv3D_build_output_padding_witness:
  "length [16, 16, 16 :: nat] = 3 \<and> 4 \<le> length [1, 8, 8, 8, 4 :: nat]
   \<and> triple (IntArg 3) = ListArg [3, 3, 3] \<and> triple (IntArg 2) = ListArg [2, 2, 2]
   \<and> (\<exists>built.
         Deconv3D_build example_framework
           (Deconv3D_init ''up'' 8 (Some [16, 16, 16]) (IntArg 3) (IntArg 2) ''valid'' [])
           [1, 8, 8, 8, 4] = Inr built
       \<and> d_padding built = ''same''
       \<and> d_output_padding built = Some [1, 1, 1])
   \<and> Deconv3D_build example_framework
         (Deconv3D_init ''up'' 8 (Some [4, 4, 4]) (IntArg 3) (IntArg 2) ''valid'' [])
         [1, 8, 8, 8, 4] = Inl ValueError
   \<and> (\<exists>built.
         Deconv3D_build example_framework
           (Deconv3D_init ''up'' 8 None (IntArg 3) (IntArg 2) ''valid'' []) [1, 8, 8, 8, 4]
           = Inr built
       \<and> d_padding built = ''valid''
       \<and> d_output_padding built = None)"
  using Deconv3D_build_output_padding [where output_shape = "[16, 16, 16]"
      and input_shape = "[1, 8, 8, 8, 4]" and kernel_size = "IntArg 3" and ks = "[3, 3, 3]"
      and strides = "IntArg 2" and st = "[2, 2, 2]" and filters = 8 and kw = "[]"
      and name = "''up''" and fw = example_framework and padding = "''valid''"]
    Deconv3D_build_output_padding [where output_shape = "[4, 4, 4]"
      and input_shape = "[1, 8, 8, 8, 4]" and kernel_size = "IntArg 3" and ks = "[3, 3, 3]"
      and strides = "IntArg 2" and st = "[2, 2, 2]" and filters = 8 and kw = "[]"
      and name = "''up''" and fw = example_framework and padding = "''valid''"]
  by (simp add: Let_def Conv3DTranspose_init_def example_framework_def numeral_3_eq_3)

section \<open>Resize3d: the shape of the result\<close>

text \<open>
  Claim C2. On a 5-D input \<open>(batch, dim1, dim2, dim3, channels)\<close> and a 3-element target
  size, all of them positive but for the batch, \<open>Resize3d.call\<close> returns a tensor of shape
  \<open>(batch, size[0], size[1], size[2], channels)\<close>: the spatial axes are the target size,
  batch and channels are those of the input. No other shape is ever returned, and where
  a dimension or a target size is zero the resize of the framework fails.
\<close>

theorem Resize3d_call_shape:
  assumes "length (shape inputs) = 5" and "length sz = 3"
  shows "((\<forall>d\<in>set (tl (shape inputs)). 0 < d) \<and> (\<forall>s\<in>set sz. 0 < s) \<longrightarrow>
            (\<exists>output. Resize3d_call fw (Resize3d_init sz method) inputs = Inr output
               \<and> shape output = [shape inputs ! 0, sz ! 0, sz ! 1, sz ! 2, shape inputs ! 4]))
       \<and> (\<not> ((\<forall>d\<in>set (tl (shape inputs)). 0 < d) \<and> (\<forall>s\<in>set sz. 0 < s)) \<longrightarrow>
            Resize3d_call fw (Resize3d_init sz method) inputs = Inl OpError)
       \<and> (\<forall>output. Resize3d_call fw (Resize3d_init sz method) inputs = Inr output \<longrightarrow>
            shape output = [shape inputs ! 0, sz ! 0, sz ! 1, sz ! 2, shape inputs ! 4])"
proof -
  have long: "3 \<le> length (r_size (Resize3d_init sz method))"
    and take: "take 3 (r_size (Resize3d_init sz method)) = sz"
    using assms(2) by (simp_all add: Resize3d_init_def)
  note ok = Resize3d_call_5d [OF assms(1) long, of fw, unfolded take]
  note zero = Resize3d_call_zero [OF assms(1) long, of fw, unfolded take]
  show ?thesis
  proof (cases "(\<forall>d\<in>set (tl (shape inputs)). 0 < d) \<and> (\<forall>s\<in>set sz. 0 < s)")
    case True
    then show ?thesis using ok by (simp add: Resize3d_init_def)
  next
    case False
    then show ?thesis using zero by simp
  qed
qed

theorem Resize3d_call_shape_witness:
  "length (shape (example_tensor [2, 3, 4, 5, 6])) = 5 \<and> length [7, 8, 9 :: nat] = 3
   \<and> (\<exists>output. Resize3d_call example_framework (Resize3d_init [7, 8, 9] BILINEAR)
                     (example_tensor [2, 3, 4, 5, 6]) = Inr output
              \<and> shape output = [2, 7, 8, 9, 6])
   \<and> Resize3d_call example_framework (Resize3d_init [0, 8, 9] BILINEAR)
        (example_tensor [2, 3, 4, 5, 6]) = Inl OpError"
  using Resize3d_call_shape [of "example_tensor [2, 3, 4, 5, 6]" "[7, 8, 9]" example_framework
      BILINEAR]
    Resize3d_call_shape [of "example_tensor [2, 3, 4, 5, 6]" "[0, 8, 9]" example_framework
      BILINEAR]
  by (simp add: example_tensor_def)

section \<open>DDFSummand: when the projection is resized\<close>

text \<open>
  Claim C3. \<open>DDFSummand.call\<close> first applies the convolution to the input. The result is
  resized by the \<open>Resize3d\<close> of the layer (target size \<open>output_shape\<close>) exactly when the
  shape of the input differs from \<open>output_shape\<close>; when the two are equal the projection is
  returned as it is. The comparison is between the whole shape of the input and the list
  \<open>output_shape\<close>.
\<close>

theorem DDFSummand_call_resize_iff:
  "(shape inputs \<noteq> output_shape \<longrightarrow>
      DDFSummand_call fw (DDFSummand_init fw name output_shape filters) inputs =
        Resize3d_call fw (Resize3d_init output_shape BILINEAR)
          (lu_conv3d fw (name @ ''/_conv3d'')
             \<lparr>cv_filters = filters, cv_kernel_size = None,
              cv_strides = Some (IntArg 1), cv_padding = None\<rparr> inputs))
 \<and> (shape inputs = output_shape \<longrightarrow>
      DDFSummand_call fw (DDFSummand_init fw name output_shape filters) inputs =
        Inr (lu_conv3d fw (name @ ''/_conv3d'')
               \<lparr>cv_filters = filters, cv_kernel_size = None,
                cv_strides = Some (IntArg 1), cv_padding = None\<rparr> inputs))"
  by (simp add: DDFSummand_call_def DDFSummand_init_def Let_def)

theorem DDFSummand_call_resize_iff_witness:
  "shape (example_tensor [1, 2, 2, 2, 8]) \<noteq> [4, 4, 4]
   \<and> DDFSummand_call example_framework (DDFSummand_init example_framework ''ddf'' [4, 4, 4] 3)
        (example_tensor [1, 2, 2, 2, 8]) =
       Resize3d_call example_framework (Resize3d_init [4, 4, 4] BILINEAR)
         \<lparr>shape = [1, 2, 2, 2, 3], buf = (\<lambda>j. 0)\<rparr>
   \<and> shape (example_tensor [1, 2, 2, 2, 8]) = [1, 2, 2, 2, 8]
   \<and> DDFSummand_call example_framework
        (DDFSummand_init example_framework ''ddf'' [1, 2, 2, 2, 8] 3)
        (example_tensor [1, 2, 2, 2, 8]) =
       Inr \<lparr>shape = [1, 2, 2, 2, 3], buf = (\<lambda>j. 0)\<rparr>"
  using DDFSummand_call_resize_iff [of "example_tensor [1, 2, 2, 2, 8]" "[4, 4, 4]"
      example_framework "''ddf''" 3]
    DDFSummand_call_resize_iff [of "example_tensor [1, 2, 2, 2, 8]" "[1, 2, 2, 2, 8]"
      example_framework "''ddf''" 3]
  by (simp add: example_tensor_def example_framework_def example_conv_def conv_length_def)

text \<open>
  Claim C4. For a 5-D input and a 3-element \<open>output_shape\<close> the comparison never finds the
  two equal, so the projection is always handed to the resize: whenever a tensor is
  returned its spatial dimensions are \<open>output_shape\<close>, also when the input has them
  already, and a tensor is returned when the dimensions of the projection (but for the
  batch) and the target sizes are positive. The projection is 5-D, as the output of a 3-D
  convolution is.
\<close>

theorem DDFSummand_call_always_resizes:
  assumes "length (shape inputs) = 5" and "length output_shape = 3"
    and "projection = lu_conv3d fw (name @ ''/_conv3d'')
                        \<lparr>cv_filters = filters, cv_kernel_size = None,
                         cv_strides = Some (IntArg 1), cv_padding = None\<rparr> inputs"
    and "length (shape projection) = 5"
  shows "shape inputs \<noteq> output_shape
       \<and> DDFSummand_call fw (DDFSummand_init fw name output_shape filters) inputs =
           Resize3d_call fw (Resize3d_init output_shape BILINEAR) projection
       \<and> ((\<forall>d\<in>set (tl (shape projection)). 0 < d) \<and> (\<forall>s\<in>set output_shape. 0 < s) \<longrightarrow>
            (\<exists>result. DDFSummand_call fw (DDFSummand_init fw name output_shape filters) inputs
                        = Inr result
                   \<and> shape result = [shape projection ! 0, output_shape ! 0,
                                       output_shape ! 1, output_shape ! 2,
                                       shape projection ! 4]))
       \<and> (\<forall>result. DDFSummand_call fw (DDFSummand_init fw name output_shape filters) inputs
                      = Inr result \<longrightarrow>
            shape result = [shape projection ! 0, output_shape ! 0, output_shape ! 1,
                            output_shape ! 2, shape projection ! 4])"
proof -
  from assms(1,2) have ne: "shape inputs \<noteq> output_shape" by auto
  then have call: "DDFSummand_call fw (DDFSummand_init fw name output_shape filters) inputs =
      Resize3d_call fw (Resize3d_init output_shape BILINEAR) projection"
    by (simp add: DDFSummand_call_def DDFSummand_init_def Let_def assms(3))
  have long: "3 \<le> length (r_size (Resize3d_init output_shape BILINEAR))"
    and take: "take 3 (r_size (Resize3d_init output_shape BILINEAR)) = output_shape"
    using assms(2) by (simp_all add: Resize3d_init_def)
  note ok = Resize3d_call_5d [OF assms(4) long, of fw, unfolded take]
  note zero = Resize3d_call_zero [OF assms(4) long, of fw, unfolded take]
  show ?thesis
  proof (cases "(\<forall>d\<in>set (tl (shape projection)). 0 < d) \<and> (\<forall>s\<in>set output_shape. 0 < s)")
    case True
    then show ?thesis
      unfolding call using ne ok by (simp add: Resize3d_init_def)
  next
    case False
    then show ?thesis
      unfolding call using ne zero by simp
  qed
qed

theorem DDFSummand_call_always_resizes_witness:
  "length (shape (example_tensor [1, 4, 4, 4, 8])) = 5 \<and> length [4, 4, 4 :: nat] = 3
   \<and> shape (example_tensor [1, 4, 4, 4, 8]) \<noteq> [4, 4, 4]
   \<and> (\<exists>result. DDFSummand_call example_framework
                     (DDFSummand_init example_framework ''ddf'' [4, 4, 4] 3)
                     (example_tensor [1, 4, 4, 4, 8]) = Inr result
              \<and> shape result = [1, 4, 4, 4, 3])"
proof -
  let ?x = "example_tensor [1, 4, 4, 4, 8]"
  let ?y = "\<lparr>shape = [1, 4, 4, 4, 3], buf = (\<lambda>j. 0 :: int)\<rparr>"
  have h1: "length (shape ?x) = 5" and h2: "length [4, 4, 4 :: nat] = 3"
    by (simp_all add: example_tensor_def)
  have h3: "?y = lu_conv3d example_framework (''ddf'' @ ''/_conv3d'')
                   \<lparr>cv_filters = 3, cv_kernel_size = None, cv_strides = Some (IntArg 1),
                      cv_padding = None\<rparr> ?x"
    by (simp add: example_framework_def example_tensor_def example_conv_def conv_length_def)
  have h4: "length (shape ?y) = 5" by simp
  have pos: "(\<forall>d\<in>set (tl (shape ?y)). 0 < d) \<and> (\<forall>s\<in>set [4, 4, 4 :: nat]. 0 < s)" by simp
  note t = DDFSummand_call_always_resizes [OF h1 h2 h3 h4]
  from t [THEN conjunct1] have "shape ?x \<noteq> [4, 4, 4]" .
  moreover from t [THEN conjunct2, THEN conjunct2, THEN conjunct1, THEN mp, OF pos]
  have "\<exists>result. DDFSummand_call example_framework
                    (DDFSummand_init example_framework ''ddf'' [4, 4, 4] 3) ?x = Inr result
                \<and> shape result = [1, 4, 4, 4, 3]"
    by simp
  ultimately show ?thesis using h1 h2 by simp
qed

section \<open>AdditiveUpSampling\<close>

text \<open>
  Claim C5. On a 5-D input and with a positive stride, \<open>AdditiveUpSampling.call\<close> raises
  ValueError exactly when the channel count (axis 4 of the input's shape) is not a multiple
  of the stride. The framework and the \<open>Resize3d\<close> of the layer are arbitrary here: the
  error is raised before the resize, also where the resize itself would fail.
\<close>

theorem AdditiveUpSampling_call_ValueError_iff:
  fixes fw :: "('a::monoid_add) framework"
  assumes "length (shape inputs) = 5" and "0 < au_stride self"
  shows "AdditiveUpSampling_call fw self inputs = Inl ValueError
           \<longleftrightarrow> shape inputs ! 4 mod au_stride self \<noteq> 0"
proof (cases "shape inputs ! 4 mod au_stride self = 0")
  case False
  with assms show ?thesis
    by (simp add: AdditiveUpSampling_call_def getitem_in_range not_divisible_def)
next
  case True
  have call: "AdditiveUpSampling_call fw self inputs =
      then_do (Resize3d_call fw (au_resize3d self) inputs) (\<lambda>resized.
      then_do (tf_split resized (au_stride self) 4) (\<lambda>ps.
      then_do (tf_stack ps 5) (\<lambda>stacked. tf_reduce_sum stacked 5)))"
    using assms True
    by (simp add: AdditiveUpSampling_call_def getitem_in_range not_divisible_def)
  from Resize3d_call_5d_cases [OF assms(1), of fw "au_resize3d self"]
  have "AdditiveUpSampling_call fw self inputs \<noteq> Inl ValueError"
  proof (elim disjE exE conjE)
    fix t
    assume r: "Resize3d_call fw (au_resize3d self) inputs = Inr t"
      and sh: "shape t = [shape inputs ! 0, r_size (au_resize3d self) ! 0,
                          r_size (au_resize3d self) ! 1, r_size (au_resize3d self) ! 2,
                          shape inputs ! 4]"
    from sh have "length (shape t) = 5" and "shape t ! 4 mod au_stride self = 0"
      using True by simp_all
    from group_sum_tail [OF this(1) assms(2) this(2)] show ?thesis
      unfolding call r then_do_Inr by simp
  qed (simp_all add: call)
  with True show ?thesis by simp
qed

theorem AdditiveUpSampling_call_ValueError_iff_witness:
  "length (shape (example_tensor [1, 2, 2, 2, 3])) = 5
   \<and> 0 < au_stride (AdditiveUpSampling_init [] 2)
   \<and> AdditiveUpSampling_call example_framework (AdditiveUpSampling_init [] 2)
         (example_tensor [1, 2, 2, 2, 3]) = Inl ValueError
   \<and> shape (example_tensor [1, 2, 2, 2, 3]) ! 4 mod 2 \<noteq> 0"
  using AdditiveUpSampling_call_ValueError_iff [of "example_tensor [1, 2, 2, 2, 3]"
      "AdditiveUpSampling_init [] 2" example_framework]
  by (simp add: example_tensor_def AdditiveUpSampling_init_def)

text \<open>
  Claim C6. On a 5-D input whose channel count \<open>C\<close> is a multiple of the stride \<open>S\<close>, with
  positive dimensions (but for the batch) and positive target sizes,
  \<open>AdditiveUpSampling.call\<close> resizes the input to \<open>output_shape\<close> with \<open>Resize3d\<close>, cuts the
  channel axis of the resized tensor into \<open>S\<close> contiguous groups of \<open>C / S\<close> channels and
  returns their elementwise sum: the result has shape
  \<open>(batch, out_dim1, out_dim2, out_dim3, C / S)\<close>, and its channel \<open>c\<close> at a position \<open>p\<close>
  (batch and spatial axes, row-major) is the sum over the groups \<open>k\<close> of channel
  \<open>k * (C / S) + c\<close> of the resized tensor at \<open>p\<close>.
\<close>

theorem AdditiveUpSampling_call_group_sum:
  fixes fw :: "('a::monoid_add) framework"
  assumes "length (shape inputs) = 5" and "length output_shape = 3" and "0 < stride"
    and "shape inputs ! 4 mod stride = 0"
    and "\<forall>d\<in>set (tl (shape inputs)). 0 < d" and "\<forall>s\<in>set output_shape. 0 < s"
  shows "\<exists>resized result.
           Resize3d_call fw (Resize3d_init output_shape BILINEAR) inputs = Inr resized
         \<and> AdditiveUpSampling_call fw (AdditiveUpSampling_init output_shape stride) inputs
             = Inr result
         \<and> shape result = [shape inputs ! 0, output_shape ! 0, output_shape ! 1,
                            output_shape ! 2, shape inputs ! 4 div stride]
         \<and> (\<forall>p c. c < shape inputs ! 4 div stride \<longrightarrow>
                buf result (p * (shape inputs ! 4 div stride) + c) =
                sum_list (map (\<lambda>k. buf resized (p * (shape inputs ! 4)
                                     + k * (shape inputs ! 4 div stride) + c)) [0..<stride]))"
proof -
  have long: "3 \<le> length (r_size (Resize3d_init output_shape BILINEAR))"
    and take: "take 3 (r_size (Resize3d_init output_shape BILINEAR)) = output_shape"
    using assms(2) by (simp_all add: Resize3d_init_def)
  note r = Resize3d_call_5d [OF assms(1) long, of fw, unfolded take, OF assms(5,6)]
  show ?thesis
    using assms(1-4)
    by (simp add: AdditiveUpSampling_call_def AdditiveUpSampling_init_def getitem_in_range
        not_divisible_def r [unfolded Resize3d_init_def, simplified] Resize3d_init_def
        group_sum_tail)
qed

theorem AdditiveUpSampling_call_group_sum_witness:
  "length (shape (example_tensor [1, 1, 1, 1, 4])) = 5 \<and> length [2, 2, 2 :: nat] = 3
   \<and> (0::nat) < 2 \<and> shape (example_tensor [1, 1, 1, 1, 4]) ! 4 mod 2 = 0
   \<and> (\<exists>resized result.
           Resize3d_call example_framework (Resize3d_init [2, 2, 2] BILINEAR)
             (example_tensor [1, 1, 1, 1, 4]) = Inr resized
         \<and> AdditiveUpSampling_call example_framework (AdditiveUpSampling_init [2, 2, 2] 2)
             (example_tensor [1, 1, 1, 1, 4]) = Inr result
         \<and> shape result = [1, 2, 2, 2, 2]
         \<and> (\<forall>p c. c < 2 \<longrightarrow>
                buf result (p * 2 + c) =
                sum_list (map (\<lambda>k. buf resized (p * 4 + k * 2 + c)) [0..<2])))"
proof -
  let ?x = "example_tensor [1, 1, 1, 1, 4]"
  have h1: "length (shape ?x) = 5" and h2: "length [2, 2, 2 :: nat] = 3"
    and h3: "(0::nat) < 2" and h4: "shape ?x ! 4 mod 2 = 0"
    and h5: "\<forall>d\<in>set (tl (shape ?x)). 0 < d" and h6: "\<forall>s\<in>set [2, 2, 2 :: nat]. 0 < s"
    by (simp_all add: example_tensor_def)
  have e: "shape ?x ! 4 = 4" "shape ?x ! 0 = 1" "(4::nat) div 2 = 2"
    by (simp_all add: example_tensor_def)
  from AdditiveUpSampling_call_group_sum [OF h1 h2 h3 h4 h5 h6, of example_framework]
  show ?thesis
    unfolding e using h1 h2 h4 by simp
qed

section \<open>Resize3d: two resizes of two axes\<close>

text \<open>
  Claim C7. \<open>Resize3d.call\<close> is two 2-D resizes in sequence, both with the method of the
  layer. The input is reshaped to \<open>[batch * dim1, dim2, dim3, channels]\<close> and its axes
  \<open>(dim2, dim3)\<close> are resized to \<open>(size[1], size[2])\<close>; the result is reshaped to
  \<open>[batch, dim1, size[1], size[2] * channels]\<close> and its axes \<open>(dim1, size[1])\<close> are resized
  to \<open>(size[0], size[1])\<close>; the result is reshaped to
  \<open>[batch, size[0], size[1], size[2], channels]\<close>. The call is this sequence whether or
  not a step fails, and with positive dimensions and sizes every step succeeds with the
  shape given.
\<close>

theorem Resize3d_call_two_stages:
  assumes "shape inputs = [batch, dim1, dim2, dim3, channels]" and "sz = [t1, t2, t3]"
  shows "Resize3d_call fw (Resize3d_init sz method) inputs =
           then_do (tf_reshape inputs [batch * dim1, dim2, dim3, channels]) (\<lambda>merged.
           then_do (tf_image_resize fw merged t2 t3 method) (\<lambda>y1.
           then_do (tf_reshape y1 [batch, dim1, t2, t3 * channels]) (\<lambda>split.
           then_do (tf_image_resize fw split t1 t2 method) (\<lambda>y2.
             tf_reshape y2 [batch, t1, t2, t3, channels]))))
       \<and> (0 < dim1 \<and> 0 < dim2 \<and> 0 < dim3 \<and> 0 < channels \<and> 0 < t1 \<and> 0 < t2 \<and> 0 < t3 \<longrightarrow>
            (\<exists>merged y1 y2.
               tf_reshape inputs [batch * dim1, dim2, dim3, channels] = Inr merged
             \<and> tf_image_resize fw merged t2 t3 method = Inr y1
             \<and> shape y1 = [batch * dim1, t2, t3, channels]
             \<and> tf_image_resize fw (y1\<lparr>shape := [batch, dim1, t2, t3 * channels]\<rparr>) t1 t2 method
                 = Inr y2
             \<and> shape y2 = [batch, t1, t2, t3 * channels]
             \<and> Resize3d_call fw (Resize3d_init sz method) inputs
                 = Inr (y2\<lparr>shape := [batch, t1, t2, t3, channels]\<rparr>)))"
  using assms
  by (simp add: Resize3d_call_def Resize3d_init_def getitem_def tf_reshape_def
      tf_image_resize_def mult.assoc)

theorem Resize3d_call_two_stages_witness:
  "shape (example_tensor [2, 3, 4, 5, 6]) = [2, 3, 4, 5, 6]
   \<and> (0::nat) < 3 \<and> (0::nat) < 4 \<and> (0::nat) < 5 \<and> (0::nat) < 6
   \<and> (0::nat) < 7 \<and> (0::nat) < 8 \<and> (0::nat) < 9
   \<and> (\<exists>merged y1 y2.
           tf_reshape (example_tensor [2, 3, 4, 5, 6]) [2 * 3, 4, 5, 6] = Inr merged
         \<and> tf_image_resize example_framework merged 8 9 BILINEAR = Inr y1
         \<and> shape y1 = [2 * 3, 8, 9, 6]
         \<and> tf_image_resize example_framework (y1\<lparr>shape := [2, 3, 8, 9 * 6]\<rparr>) 7 8 BILINEAR
             = Inr y2
         \<and> shape y2 = [2, 7, 8, 9 * 6]
         \<and> Resize3d_call example_framework (Resize3d_init [7, 8, 9] BILINEAR)
              (example_tensor [2, 3, 4, 5, 6])
             = Inr (y2\<lparr>shape := [2, 7, 8, 9, 6]\<rparr>))"
  using Resize3d_call_two_stages [of "example_tensor [2, 3, 4, 5, 6]" 2 3 4 5 6 "[7, 8, 9]"
      7 8 9 example_framework BILINEAR, THEN conjunct2]
  by (simp add: example_tensor_def)

section \<open>DownSampleResnetBlock\<close>

text \<open>
  Claim C8. \<open>DownSampleResnetBlock.call\<close> returns the pair \<open>(h1, h0)\<close> with
  \<open>h0 = Conv3dBlock1(x)\<close>, \<open>r1 = Conv3dBlock2(h0)\<close>,
  \<open>r2 = ReLU(BatchNorm(Conv(r1)) + h0)\<close> and \<open>h1\<close> the pooling of \<open>r2\<close> when \<open>use_pooling\<close>
  holds, the third \<open>Conv3dBlock\<close> of \<open>r2\<close> otherwise, each of them the block's own
  sub-layer. The call fails only where the sum does; whenever it returns, the second
  component is \<open>h0\<close>; and it returns when the two summands have one shape, the sum being
  elementwise. The constructor makes the three blocks and the convolution as separate
  layers, the pooling with size and strides 2x2x2, the third block with strides 2.
\<close>

theorem DownSampleResnetBlock_call_pair:
  fixes self :: "('a::monoid_add) DownSampleResnetBlock"
  shows
   "(let h0 = Conv3dBlock_call (ds_conv3d_block1 self) x training;
         r1 = Conv3dBlock_call (ds_conv3d_block2 self) h0 training;
         normed = ds_batch_norm self (ds_conv3d self r1) training;
         h1 = (\<lambda>r2. if ds_use_pooling self then ds_max_pool3d self r2
                     else Conv3dBlock_call (ds_conv3d_block3 self) r2 training)
     in DownSampleResnetBlock_call self x training =
          then_do (tf_add normed h0) (\<lambda>s. Inr (h1 (ds_relu self s), h0))
      \<and> (\<forall>p. DownSampleResnetBlock_call self x training = Inr p \<longrightarrow> snd p = h0)
      \<and> (shape normed = shape h0 \<longrightarrow>
           (\<exists>s. tf_add normed h0 = Inr s \<and> shape s = shape h0
              \<and> (\<forall>j<prod_list (shape h0). buf s j = buf normed j + buf h0 j)
              \<and> DownSampleResnetBlock_call self x training = Inr (h1 (ds_relu self s), h0))))
  \<and> (let made = DownSampleResnetBlock_init fw name filters kernel_size use_pooling
     in ds_use_pooling made = use_pooling
      \<and> ds_conv3d_block1 made =
          Conv3dBlock_init fw (name @ ''/_conv3d_block1'') filters kernel_size (IntArg 1) ''same''
      \<and> ds_conv3d_block2 made =
          Conv3dBlock_init fw (name @ ''/_conv3d_block2'') filters kernel_size (IntArg 1) ''same''
      \<and> ds_conv3d made =
          lu_conv3d fw (name @ ''/_conv3d'')
            \<lparr>cv_filters = filters, cv_kernel_size = Some kernel_size,
             cv_strides = Some (IntArg 1), cv_padding = None\<rparr>
      \<and> ds_batch_norm made = lu_batch_norm fw (name @ ''/_batch_norm'')
      \<and> ds_relu made = lu_act fw ''relu''
      \<and> ds_max_pool3d made = lu_max_pool3d fw [2, 2, 2] [2, 2, 2]
      \<and> ds_conv3d_block3 made =
          Conv3dBlock_init fw (name @ ''/_conv3d_block3'') filters kernel_size (IntArg 2)
            ''same'')"
proof -
  let ?h0 = "Conv3dBlock_call (ds_conv3d_block1 self) x training"
  let ?r1 = "Conv3dBlock_call (ds_conv3d_block2 self) ?h0 training"
  let ?normed = "ds_batch_norm self (ds_conv3d self ?r1) training"
  let ?h1 = "\<lambda>r2. if ds_use_pooling self then ds_max_pool3d self r2
                   else Conv3dBlock_call (ds_conv3d_block3 self) r2 training"
  have call: "DownSampleResnetBlock_call self x training =
      then_do (tf_add ?normed ?h0) (\<lambda>s. Inr (?h1 (ds_relu self s), ?h0))"
    by (simp add: DownSampleResnetBlock_call_def Let_def)
  have second: "\<forall>p. DownSampleResnetBlock_call self x training = Inr p \<longrightarrow> snd p = ?h0"
    unfolding call by (cases "tf_add ?normed ?h0") auto
  have ok: "shape ?normed = shape ?h0 \<longrightarrow>
      (\<exists>s. tf_add ?normed ?h0 = Inr s \<and> shape s = shape ?h0
         \<and> (\<forall>j<prod_list (shape ?h0). buf s j = buf ?normed j + buf ?h0 j)
         \<and> DownSampleResnetBlock_call self x training = Inr (?h1 (ds_relu self s), ?h0))"
  proof
    assume "shape ?normed = shape ?h0"
    from tf_add_same_shape [OF this] obtain s where
      s: "tf_add ?normed ?h0 = Inr s" "shape s = shape ?h0"
        "\<forall>j<prod_list (shape ?h0). buf s j = buf ?normed j + buf ?h0 j"
      by blast
    then show "\<exists>s. tf_add ?normed ?h0 = Inr s \<and> shape s = shape ?h0
         \<and> (\<forall>j<prod_list (shape ?h0). buf s j = buf ?normed j + buf ?h0 j)
         \<and> DownSampleResnetBlock_call self x training = Inr (?h1 (ds_relu self s), ?h0)"
      unfolding call by simp
  qed
  show ?thesis
    unfolding Let_def
    by (intro conjI call second ok) (simp_all add: DownSampleResnetBlock_init_def)
qed

theorem DownSampleResnetBlock_call_pair_witness:
  "\<exists>h1 h0. DownSampleResnetBlock_call
              (DownSampleResnetBlock_init example_framework ''down'' 8 (IntArg 3) True)
              (example_tensor [1, 16, 16, 16, 4]) None = Inr (h1, h0)
          \<and> shape h1 = [1, 8, 8, 8, 8] \<and> shape h0 = [1, 16, 16, 16, 8]"
proof -
  let ?x = "example_tensor [1, 16, 16, 16, 4]"
  let ?blk = "DownSampleResnetBlock_init example_framework ''down'' 8 (IntArg 3) True"
  let ?h0 = "Conv3dBlock_call (ds_conv3d_block1 ?blk) ?x None"
  let ?r1 = "Conv3dBlock_call (ds_conv3d_block2 ?blk) ?h0 None"
  let ?normed = "ds_batch_norm ?blk (ds_conv3d ?blk ?r1) None"
  have h0: "shape ?h0 = [1, 16, 16, 16, 8]"
    by (simp add: DownSampleResnetBlock_init_def Conv3dBlock_init_def Conv3dBlock_call_def
        example_framework_def example_conv_def conv_length_def example_tensor_def)
  have normed: "shape ?normed = [1, 16, 16, 16, 8]"
    by (simp add: DownSampleResnetBlock_init_def Conv3dBlock_init_def Conv3dBlock_call_def
        example_framework_def example_conv_def conv_length_def example_tensor_def)
  have same: "shape ?normed = shape ?h0"
    unfolding h0 normed ..
  note t = DownSampleResnetBlock_call_pair [where self = ?blk and x = ?x and training = None,
      unfolded Let_def, THEN conjunct1, THEN conjunct2, THEN conjunct2, THEN mp, OF same]
  then obtain s where s: "shape s = shape ?h0"
    and call: "DownSampleResnetBlock_call ?blk ?x None =
      Inr (if ds_use_pooling ?blk then ds_max_pool3d ?blk (ds_relu ?blk s)
           else Conv3dBlock_call (ds_conv3d_block3 ?blk) (ds_relu ?blk s) None, ?h0)"
    by blast
  have "shape (if ds_use_pooling ?blk then ds_max_pool3d ?blk (ds_relu ?blk s)
           else Conv3dBlock_call (ds_conv3d_block3 ?blk) (ds_relu ?blk s) None)
        = [1, 8, 8, 8, 8]"
    using s [unfolded h0]
    by (simp add: DownSampleResnetBlock_init_def example_framework_def example_max_pool_def
        Let_def)
  with call h0 show ?thesis by blast
qed

section \<open>UpSampleResnetBlock\<close>

text \<open>
  Claim C9. \<open>UpSampleResnetBlock\<close> raises ValueError, in \<open>build\<close> and in \<open>call\<close>, on an input
  that is not a list of two: on a single tensor (or shape) and on a list of any other
  length. A list of two passes the check: \<open>build\<close> succeeds on it, and \<open>call\<close> goes on to
  the body of the layer, the deconvolution of the first tensor, the additive upsampling
  when it is on, the sum with the second tensor and the residual convolution, and
  returns what the body returns.
\<close>

theorem UpSampleResnetBlock_input_check:
  fixes fw :: "('a::monoid_add) framework"
  shows "UpSampleResnetBlock_build fw self (One s) = Inl ValueError
       \<and> (length shapes \<noteq> 2 \<longrightarrow>
            UpSampleResnetBlock_build fw self (Many shapes) = Inl ValueError)
       \<and> (\<exists>built. UpSampleResnetBlock_build fw self (Many [s0, s1]) = Inr built)
       \<and> UpSampleResnetBlock_call fw self (One t) training = Inl ValueError
       \<and> (length ts \<noteq> 2 \<longrightarrow>
            UpSampleResnetBlock_call fw self (Many ts) training = Inl ValueError)
       \<and> UpSampleResnetBlock_call fw self (Many [nonskip, skip]) training =
           then_do (case us_deconv3d_block self of
                      None \<Rightarrow> Inl TypeError
                    | Some blk \<Rightarrow> Deconv3dBlock_call fw blk nonskip training) (\<lambda>h0.
           then_do (if us_use_additive_upsampling self
                    then then_do (case us_additive_upsampling self of
                                    None \<Rightarrow> Inl TypeError
                                  | Some au \<Rightarrow> AdditiveUpSampling_call fw au nonskip)
                           (\<lambda>up. tf_add h0 up)
                    else Inr h0) (\<lambda>h0.
           then_do (tf_add h0 skip) (\<lambda>r1.
           then_do (tf_add (us_batch_norm self (us_conv3d self
                              (Conv3dBlock_call (us_conv3d_block self) h0 training)) training)
                      r1) (\<lambda>sum. Inr (us_relu self sum)))))"
  by (simp add: UpSampleResnetBlock_build_def UpSampleResnetBlock_call_def Let_def)

theorem UpSampleResnetBlock_input_check_witness:
  "length [[1, 2, 2, 2, 16], [1, 4, 4, 4, 8], [1, 4, 4, 4, 8 :: nat]] \<noteq> 2
 \<and> UpSampleResnetBlock_build example_framework
       (UpSampleResnetBlock_init example_framework ''up'' 8 True)
       (Many [[1, 2, 2, 2, 16], [1, 4, 4, 4, 8], [1, 4, 4, 4, 8]]) = Inl ValueError
 \<and> UpSampleResnetBlock_build example_framework
       (UpSampleResnetBlock_init example_framework ''up'' 8 True) (One [1, 2, 2, 2, 16])
       = Inl ValueError
 \<and> UpSampleResnetBlock_call example_framework
       (UpSampleResnetBlock_init example_framework ''up'' 8 True)
       (One (example_tensor [1, 2, 2, 2, 16])) None = Inl ValueError
 \<and> UpSampleResnetBlock_call example_framework
       (UpSampleResnetBlock_init example_framework ''up'' 8 True)
       (Many [example_tensor [1, 2, 2, 2, 16], example_tensor [1, 4, 4, 4, 8],
              example_tensor [1, 4, 4, 4, 8]]) None = Inl ValueError
 \<and> (\<exists>built h1.
       UpSampleResnetBlock_build example_framework
         (UpSampleResnetBlock_init example_framework ''up'' 8 True)
         (Many [[1, 2, 2, 2, 16], [1, 4, 4, 4, 8]]) = Inr built
     \<and> UpSampleResnetBlock_call example_framework built
         (Many [example_tensor [1, 2, 2, 2, 16], example_tensor [1, 4, 4, 4, 8]]) None
         = Inr h1
     \<and> shape h1 = [1, 4, 4, 4, 8])"
proof -
  let ?a = "example_tensor [1, 2, 2, 2, 16]" and ?b = "example_tensor [1, 4, 4, 4, 8]"
  let ?init = "UpSampleResnetBlock_init example_framework ''up'' 8 True"
  let ?blk = "Deconv3dBlock_init example_framework (''up'' @ ''/_deconv3d_block'') 8
                (Some [4, 4, 4]) (IntArg 3) (IntArg 2) ''same''"
  let ?au = "AdditiveUpSampling_init [4, 4, 4] 2"
  let ?built = "?init\<lparr>us_deconv3d_block := Some ?blk, us_additive_upsampling := Some ?au\<rparr>"
  let ?S = "[1, 4, 4, 4, 8 :: nat]"
  note t = UpSampleResnetBlock_input_check [where fw = example_framework
      and self = ?init and s = "[1, 2, 2, 2, 16]"
      and shapes = "[[1, 2, 2, 2, 16], [1, 4, 4, 4, 8], [1, 4, 4, 4, 8]]"
      and t = ?a and training = None and ts = "[?a, ?b, ?b]"
      and ?s0.0 = "[1, 2, 2, 2, 16]" and ?s1.0 = "[1, 4, 4, 4, 8]"]
  have three: "length [[1, 2, 2, 2, 16], [1, 4, 4, 4, 8], [1, 4, 4, 4, 8 :: nat]] \<noteq> 2"
    "length [?a, ?b, ?b] \<noteq> 2"
    by simp_all
  note c2 = t [THEN conjunct2]
  note c3 = c2 [THEN conjunct2]
  note c4 = c3 [THEN conjunct2]
  note c5 = c4 [THEN conjunct2]
  note a = t [THEN conjunct1]
    and b = c2 [THEN conjunct1, THEN mp, OF three(1)]
    and c = c4 [THEN conjunct1]
    and d = c5 [THEN conjunct1, THEN mp, OF three(2)]
  note body = UpSampleResnetBlock_input_check [where fw = example_framework
      and self = ?built and training = None and nonskip = ?a and skip = ?b,
      THEN conjunct2, THEN conjunct2, THEN conjunct2, THEN conjunct2, THEN conjunct2]
  have build: "UpSampleResnetBlock_build example_framework ?init
      (Many [[1, 2, 2, 2, 16], [1, 4, 4, 4, 8]]) = Inr ?built"
    by (simp add: UpSampleResnetBlock_build_pair)
  have "\<exists>h. Deconv3dBlock_call example_framework ?blk ?a None = Inr h \<and> shape h = ?S"
    by (simp add: Deconv3dBlock_call_def Deconv3dBlock_init_def Deconv3D_apply_def
        Deconv3D_init_def Deconv3D_build_def Deconv3D_call_def output_padding_at_def upt_3
        getitem_in_range Let_def numeral_3_eq_3 numeral_2_eq_2 Conv3DTranspose_init_def
        example_framework_def example_deconv_def deconv_length_def example_tensor_def)
  then obtain h where h: "Deconv3dBlock_call example_framework ?blk ?a None = Inr h"
    and sh: "shape h = ?S" by blast
  have "\<exists>up. AdditiveUpSampling_call example_framework ?au ?a = Inr up
          \<and> shape up = [shape ?a ! 0, [4, 4, 4] ! 0, [4, 4, 4] ! 1, [4, 4, 4] ! 2,
                         shape ?a ! 4 div 2]"
    by (rule AdditiveUpSampling_call_returns) (simp_all add: example_tensor_def)
  then obtain up where up: "AdditiveUpSampling_call example_framework ?au ?a = Inr up"
    and su: "shape up = ?S" by (auto simp: example_tensor_def)
  from tf_add_same_shape [of h up] sh su obtain h0 where
    h0: "tf_add h up = Inr h0" and sh0: "shape h0 = ?S" by auto
  have sb: "shape ?b = ?S" by (simp add: example_tensor_def)
  from tf_add_same_shape [of h0 ?b] sh0 sb obtain r1 where
    r1: "tf_add h0 ?b = Inr r1" and sr1: "shape r1 = ?S" by auto
  let ?normed = "us_batch_norm ?built (us_conv3d ?built
                   (Conv3dBlock_call (us_conv3d_block ?built) h0 None)) None"
  have sn: "shape ?normed = ?S"
    using sh0
    by (simp add: UpSampleResnetBlock_init_def Conv3dBlock_init_def Conv3dBlock_call_def
        example_framework_def example_conv_def conv_length_def)
  from tf_add_same_shape [of ?normed r1] sn sr1 obtain total where
    total: "tf_add ?normed r1 = Inr total" and st: "shape total = ?S" by auto
  have f1: "us_deconv3d_block ?built = Some ?blk"
    and f2: "us_use_additive_upsampling ?built = True"
    and f3: "us_additive_upsampling ?built = Some ?au"
    by (simp_all add: UpSampleResnetBlock_init_def)
  have call: "UpSampleResnetBlock_call example_framework ?built (Many [?a, ?b]) None
      = Inr (us_relu ?built total)"
    by (simp only: body f1 f2 f3 option.case if_True then_do_Inr h up h0 r1 total)
  have "shape (us_relu ?built total) = ?S"
    using st by (simp add: UpSampleResnetBlock_init_def example_framework_def)
  with build call have e: "\<exists>built h1.
       UpSampleResnetBlock_build example_framework ?init
         (Many [[1, 2, 2, 2, 16], [1, 4, 4, 4, 8]]) = Inr built
     \<and> UpSampleResnetBlock_call example_framework built (Many [?a, ?b]) None = Inr h1
     \<and> shape h1 = ?S"
    by blast
  show ?thesis
    by (intro conjI three(1) a b c d e)
qed

text \<open>
  Claim C10. A block made with additive upsampling (the default) builds its
  \<open>AdditiveUpSampling\<close> with stride 2, and \<open>call\<close> raises ValueError whenever the channel
  count of the first (non-skip) tensor is odd, whatever the parameters of the block: the
  divisibility check of the sub-layer is applied to that tensor. The two inputs are 5-D.
\<close>

theorem UpSampleResnetBlock_call_odd_channels:
  fixes fw :: "('a::monoid_add) framework"
  assumes "length (shape nonskip) = 5" and "length (shape skip) = 5"
    and "odd (shape nonskip ! 4)"
  shows "\<exists>built.
           UpSampleResnetBlock_build fw (UpSampleResnetBlock_init fw name filters True)
             (Many [shape nonskip, shape skip]) = Inr built
         \<and> us_additive_upsampling built
             = Some (AdditiveUpSampling_init (take 3 (drop 1 (shape skip))) 2)
         \<and> UpSampleResnetBlock_call fw built (Many [nonskip, skip]) training
             = Inl ValueError"
proof -
  let ?out = "take 3 (drop 1 (shape skip))"
  let ?blk = "Deconv3dBlock_init fw (name @ ''/_deconv3d_block'') filters (Some ?out)
                (IntArg 3) (IntArg 2) ''same''"
  have out: "length ?out = 3" using assms(2) by simp
  have four: "4 \<le> length (shape nonskip)" using assms(1) by simp
  from assms(3) have "shape nonskip ! 4 mod 2 \<noteq> 0" by presburger
  from AdditiveUpSampling_call_odd [OF assms(1) this, of fw ?out]
  have up: "AdditiveUpSampling_call fw (AdditiveUpSampling_init ?out 2) nonskip
      = Inl ValueError" .
  from Deconv3dBlock_call_cases [OF out four, of fw "name @ ''/_deconv3d_block''" filters training]
  show ?thesis
  proof (elim disjE exE)
    assume h: "Deconv3dBlock_call fw ?blk nonskip training = Inl ValueError"
    show ?thesis
      unfolding UpSampleResnetBlock_build_pair
      by (simp add: UpSampleResnetBlock_call_def UpSampleResnetBlock_init_def h Let_def
          del: One_nat_def)
  next
    fix h0
    assume h: "Deconv3dBlock_call fw ?blk nonskip training = Inr h0"
    show ?thesis
      unfolding UpSampleResnetBlock_build_pair
      by (simp add: UpSampleResnetBlock_call_def UpSampleResnetBlock_init_def h up Let_def
          del: One_nat_def)
  qed
qed

theorem UpSampleResnetBlock_call_odd_channels_witness:
  "length (shape (example_tensor [1, 2, 2, 2, 3])) = 5
 \<and> length (shape (example_tensor [1, 4, 4, 4, 8])) = 5
 \<and> odd (shape (example_tensor [1, 2, 2, 2, 3]) ! 4)
 \<and> (\<exists>built.
       UpSampleResnetBlock_build example_framework
         (UpSampleResnetBlock_init example_framework ''up'' 8 True)
         (Many [shape (example_tensor [1, 2, 2, 2, 3]), shape (example_tensor [1, 4, 4, 4, 8])])
         = Inr built
     \<and> us_additive_upsampling built = Some (AdditiveUpSampling_init [4, 4, 4] 2)
     \<and> UpSampleResnetBlock_call example_framework built
         (Many [example_tensor [1, 2, 2, 2, 3], example_tensor [1, 4, 4, 4, 8]]) None
         = Inl ValueError)"
proof -
  let ?a = "example_tensor [1, 2, 2, 2, 3]" and ?b = "example_tensor [1, 4, 4, 4, 8]"
  have h1: "length (shape ?a) = 5" and h2: "length (shape ?b) = 5"
    and h3: "odd (shape ?a ! 4)"
    by (simp_all add: example_tensor_def)
  have out: "take 3 (drop 1 (shape ?b)) = [4, 4, 4]"
    by (simp add: example_tensor_def)
  from UpSampleResnetBlock_call_odd_channels [OF h1 h2 h3, of example_framework "''up''" 8 None]
  show ?thesis
    unfolding out using h1 h2 h3 by blast
qed

end
